theory Spec2Isabelle
  imports Complex_Main "HOL-Library.Char_ord" "HOL-Library.List_Lexorder" "HOL-Library.Sublist"
begin

section \<open>Python strings\<close>

text \<open>
  Python \<open>str\<close> values are modelled as \<open>string\<close> (lists of characters), a
  character being a code point below 256 (ASCII and the Latin-1 supplement, which holds
  the accented letters and \<open>N\<close> with tilde of Spanish file names). The helpers below
  are the \<open>str\<close> methods that \<open>cm.py\<close> calls: \<open>lower\<close>, \<open>isdigit\<close>, \<open>strip\<close>,
  \<open>replace\<close> of one character, \<open>lstrip\<close> of one character, \<open>split\<close> at one
  character, \<open>join\<close>, \<open>startswith\<close> and \<open>endswith\<close>.

  \<open>str.lower\<close> on these code points: the letters \<open>A\<close> to \<open>Z\<close> and the letters
  \<open>0xC0\<close> to \<open>0xDE\<close> other than the multiplication sign \<open>0xD7\<close> move up by 32,
  every other code point stays.
\<close>

definition char_lower :: "char \<Rightarrow> char" where
  "char_lower c =
     (if (CHR ''A'' \<le> c \<and> c \<le> CHR ''Z'')
         \<or> (CHR 0xC0 \<le> c \<and> c \<le> CHR 0xDE \<and> c \<noteq> CHR 0xD7)
      then char_of (of_char c + (32::nat)) else c)"

definition lower :: "string \<Rightarrow> string" where
  "lower s = map char_lower s"

text \<open>
  The code points below 256 that \<open>str.isdigit\<close> accepts: the ten digits and the
  superscripts two, three and one.
\<close>

definition char_isdigit :: "char \<Rightarrow> bool" where
  "char_isdigit c =
     ((CHR ''0'' \<le> c \<and> c \<le> CHR ''9'') \<or> c = CHR 0xB2 \<or> c = CHR 0xB3 \<or> c = CHR 0xB9)"

text \<open>\<open>str.isdigit\<close>: false on the empty string, true when every character is a digit.\<close>

definition isdigit :: "string \<Rightarrow> bool" where
  "isdigit s = (s \<noteq> [] \<and> list_all char_isdigit s)"

definition replace_char :: "char \<Rightarrow> char \<Rightarrow> string \<Rightarrow> string" where
  "replace_char a b s = map (\<lambda>c. if c = a then b else c) s"

definition lstrip_char :: "char \<Rightarrow> string \<Rightarrow> string" where
  "lstrip_char a s = dropWhile (\<lambda>c. c = a) s"

text \<open>\<open>s.split(c)\<close>: the pieces between the occurrences of \<open>c\<close>; never an empty list.\<close>

fun split_char :: "char \<Rightarrow> string \<Rightarrow> string list" where
  "split_char c [] = [[]]"
| "split_char c (x # xs) =
     (if x = c then [] # split_char c xs
      else (case split_char c xs of
              [] \<Rightarrow> [[x]]
            | w # ws \<Rightarrow> (x # w) # ws))"

fun join_char :: "char \<Rightarrow> string list \<Rightarrow> string" where
  "join_char c [] = []"
| "join_char c [p] = p"
| "join_char c (p # q # ps) = p @ c # join_char c (q # ps)"

definition startswith :: "string \<Rightarrow> string \<Rightarrow> bool" where
  "startswith s p = prefix p s"

definition endswith :: "string \<Rightarrow> string \<Rightarrow> bool" where
  "endswith s p = suffix p s"

section \<open>Exceptions and cells\<close>

text \<open>
  Exceptions are values. \<open>OSError\<close> is raised by the file system (\<open>os.path.getsize\<close>
  on a missing file, \<open>os.makedirs\<close>, \<open>open\<close>), \<open>RuntimeError\<close> by
  \<open>extraer_archivo\<close> and \<open>leer_archivo_generico\<close> themselves, \<open>EmptyDataError\<close> and
  \<open>ParserError\<close> by \<open>pandas.read_csv\<close>, \<open>IndexError\<close> and \<open>ValueError\<close> by the
  conversion in \<open>contar_filas_validas\<close>, \<open>KeyError\<close> by the access to the first
  \<open>__filas__\<close> cell in lista.py; \<open>LectorError\<close> stands for whatever a library reader
  of a binary format raises.
\<close>

datatype error =
    OSError
  | RuntimeError
  | EmptyDataError
  | ParserError
  | IndexError
  | KeyError
  | ValueError
  | LectorError

text \<open>
  A cell of a \<open>DataFrame\<close> is missing (\<open>NaN\<close>), a text or a number. Two cells are
  equal, for the comparisons \<open>==\<close> and \<open>!=\<close> of a column with a text, when they are the
  same text; a number is never equal to a text.
\<close>

datatype celda = NaN | Texto string | Numero rat

section \<open>Period scanner\<close>

text \<open>
  \<open>buscar_carpetas_mes\<close> (cm.py 103--110, the same text in lista.py). The base directory
  is given as the result of \<open>os.listdir\<close>, each entry with the answer of
  \<open>os.path.isdir\<close> for it. \<open>list.sort()\<close> on strings is the lexicographic order of
  the characters.
\<close>

definition buscar_carpetas_mes :: "(string \<times> bool) list \<Rightarrow> string list" where
  "buscar_carpetas_mes listdir =
     sort (map fst (filter (\<lambda>(entry, isdir). isdir \<and> length entry = 6 \<and> isdigit entry) listdir))"

text \<open>
  The calendar reading of a token \<open>MMYYYY\<close>: the month is the first two digits, the year
  the last four (\<open>extraer_mes_anio\<close>, cm.py 92--97, slices the token the same way).
\<close>

definition valor_decimal :: "string \<Rightarrow> nat" where
  "valor_decimal s = foldl (\<lambda>n c. 10 * n + (of_char c - 48)) 0 s"

definition mes_de :: "string \<Rightarrow> nat" where
  "mes_de carpeta = valor_decimal (take 2 carpeta)"

definition anio_de :: "string \<Rightarrow> nat" where
  "anio_de carpeta = valor_decimal (drop 2 carpeta)"

definition antes_cronologico :: "string \<Rightarrow> string \<Rightarrow> bool" where
  "antes_cronologico a b =
     (anio_de a < anio_de b \<or> (anio_de a = anio_de b \<and> mes_de a < mes_de b))"

section \<open>Path sanitizer and the zip branch of the archive expander\<close>

text \<open>\<open>_sanitize_zipinfo_name\<close> (cm.py 143--152).\<close>

definition sanitize_zipinfo_name :: "string \<Rightarrow> string" where
  "sanitize_zipinfo_name name0 =
     (let name1 = replace_char (CHR 0x5C) CHR ''/'' name0;
          name2 = (if startswith name1 ''/'' then lstrip_char CHR ''/'' name1 else name1);
          parts = filter (\<lambda>p. p \<noteq> [] \<and> p \<noteq> ''..'') (split_char CHR ''/'' name2)
      in join_char CHR ''/'' parts)"

text \<open>
  The functions of \<open>os.path\<close> that the program calls. The program runs on Windows (its
  temporary folder is on drive \<open>C:\<close>, cm.py 724; it opens the Windows file explorer,
  cm.py 213), where \<open>os.path\<close> is \<open>ntpath\<close>: the backslash and the slash both
  separate, a path may begin with a drive \<open>X:\<close>, and \<open>join\<close> puts a backslash between
  its arguments. Paths that begin with two separators (network and device paths) are not
  modelled: \<open>splitdrive\<close> below finds drive letters only.
\<close>

definition es_separador :: "char \<Rightarrow> bool" where
  "es_separador c = (c = CHR 0x5C \<or> c = CHR ''/'')"

definition splitdrive :: "string \<Rightarrow> string \<times> string" where
  "splitdrive p =
     (if 2 \<le> length p \<and> p ! 1 = CHR '':'' then (take 2 p, drop 2 p) else ([], p))"

text \<open>
  \<open>os.path.join\<close> with two arguments: a second argument whose part after the drive
  starts with a separator replaces the first (keeping the drive of the first only when it
  has none of its own), a second argument on another drive replaces the first, and
  otherwise the second is put behind the first with one backslash between them.
\<close>

definition os_path_join :: "string \<Rightarrow> string \<Rightarrow> string" where
  "os_path_join path p =
     (let (result_drive, result_path) = splitdrive path;
          (p_drive, p_path) = splitdrive p
      in if p_path \<noteq> [] \<and> es_separador (hd p_path)
         then (if result_drive = [] \<or> p_drive \<noteq> [] then p_drive else result_drive) @ p_path
         else if p_drive \<noteq> [] \<and> p_drive \<noteq> result_drive \<and> lower p_drive \<noteq> lower result_drive
         then p_drive @ p_path
         else (if p_drive \<noteq> [] \<and> p_drive \<noteq> result_drive then p_drive else result_drive)
              @ (if result_path \<noteq> [] \<and> \<not> es_separador (last result_path)
                 then result_path @ [CHR 0x5C] else result_path)
              @ p_path)"

text \<open>
  \<open>os.path.split\<close>: the tail is what follows the last separator behind the drive, the
  head what precedes it, without its trailing separators unless it consists of
  separators only. \<open>dirname\<close> and \<open>basename\<close> are the two parts.
\<close>

definition os_path_split :: "string \<Rightarrow> string \<times> string" where
  "os_path_split p =
     (let (d, resto) = splitdrive p;
          head = rev (dropWhile (\<lambda>c. \<not> es_separador c) (rev resto));
          tail = drop (length head) resto;
          head_sin = rev (dropWhile es_separador (rev head))
      in (d @ (if head_sin \<noteq> [] then head_sin else head), tail))"

definition os_path_dirname :: "string \<Rightarrow> string" where
  "os_path_dirname p = fst (os_path_split p)"

definition os_path_basename :: "string \<Rightarrow> string" where
  "os_path_basename p = snd (os_path_split p)"

text \<open>
  \<open>os.path.splitext(p)[1]\<close>: from the last dot of what follows the last separator,
  leading dots apart.
\<close>

definition splitext_ext :: "string \<Rightarrow> string" where
  "splitext_ext p =
     (let nombre = last (split_char CHR ''/'' (replace_char (CHR 0x5C) CHR ''/'' p));
          sin_puntos = dropWhile (\<lambda>c. c = CHR ''.'') nombre
      in if CHR ''.'' \<in> set sin_puntos
         then CHR ''.'' # last (split_char CHR ''.'' sin_puntos)
         else [])"

text \<open>
  Lexical resolution of a path (what \<open>os.path.normpath\<close> does with the segments): the
  path is cut at both separators, empty and \<open>.\<close> segments are skipped, a \<open>..\<close> segment
  removes the directory entered last. The result is the list of names from the start of
  the path, innermost last; a drive is part of the first name. A \<open>..\<close> with nothing to
  remove is kept, as for a relative path. Two paths name the same place when they resolve
  alike (that Windows takes upper and lower case letters of a name as the same is not
  modelled).
\<close>

definition paso_segmento :: "string list \<Rightarrow> string \<Rightarrow> string list" where
  "paso_segmento pila seg =
     (if seg = [] \<or> seg = ''.'' then pila
      else if seg = ''..'' then
        (if pila = [] \<or> last pila = ''..'' then pila @ [seg] else butlast pila)
      else pila @ [seg])"

definition resolver :: "string \<Rightarrow> string list" where
  "resolver ruta =
     foldl paso_segmento [] (split_char CHR ''/'' (replace_char (CHR 0x5C) CHR ''/'' ruta))"

text \<open>
  The zip branch of \<open>extraer_archivo\<close> (cm.py 239--253). A member of the archive is its
  entry name, whether it is a directory entry, and its bytes. The state is what the loop
  has done to the file system and its result list: the directories that exist (the
  destination directory, which the caller has created, cm.py 327, and those created by
  \<open>safe_mkdir\<close>), the files written, and \<open>extraidos\<close>. At the start the file system
  holds nothing else.
\<close>

record miembro =
  filename :: string
  is_dir :: bool
  datos :: string

record extraccion =
  directorios :: "string list"
  escritos :: "(string \<times> string) list"
  extraidos :: "string list"

text \<open>
  \<open>safe_mkdir\<close> (cm.py 48--50) is \<open>os.makedirs(path, exist_ok=True)\<close>: it raises for
  the empty path and when the path or one of the directories above it is a file;
  otherwise the directory exists afterwards. Opening a file for writing raises when the
  path is a directory.
\<close>

definition safe_mkdir :: "extraccion \<Rightarrow> string \<Rightarrow> extraccion \<times> error option" where
  "safe_mkdir st ruta =
     (if ruta = [] \<or> list_ex (\<lambda>(q, d). prefix (resolver q) (resolver ruta)) (escritos st)
      then (st, Some OSError)
      else (st\<lparr>directorios := directorios st @ [ruta]\<rparr>, None))"

definition es_directorio :: "extraccion \<Rightarrow> string \<Rightarrow> bool" where
  "es_directorio st ruta = list_ex (\<lambda>d. prefix (resolver ruta) (resolver d)) (directorios st)"

text \<open>
  One pass of the loop over the members: the state afterwards and the exception that
  ended the pass, if one did.
\<close>

definition extraer_miembro :: "string \<Rightarrow> extraccion \<Rightarrow> miembro \<Rightarrow> extraccion \<times> error option" where
  "extraer_miembro dest_dir st member =
     (let safe_name = sanitize_zipinfo_name (filename member)
      in if safe_name = [] then (st, None)
         else
           (let target_path = os_path_join dest_dir safe_name
            in case safe_mkdir st (os_path_dirname target_path) of
                 (st1, Some e) \<Rightarrow> (st1, Some e)
               | (st1, None) \<Rightarrow>
                   if is_dir member then safe_mkdir st1 target_path
                   else if es_directorio st1 target_path then (st1, Some OSError)
                   else (st1\<lparr>escritos := escritos st1 @ [(target_path, datos member)],
                             extraidos := extraidos st1 @ [target_path]\<rparr>, None)))"

fun extraer_miembros :: "string \<Rightarrow> extraccion \<Rightarrow> miembro list \<Rightarrow> extraccion \<times> error option" where
  "extraer_miembros dest_dir st [] = (st, None)"
| "extraer_miembros dest_dir st (member # resto) =
     (case extraer_miembro dest_dir st member of
        (st1, Some e) \<Rightarrow> (st1, Some e)
      | (st1, None) \<Rightarrow> extraer_miembros dest_dir st1 resto)"

text \<open>
  The branch as a whole: the file system afterwards, and the list that
  \<open>extraer_archivo\<close> returns or the \<open>RuntimeError\<close> it raises in place of any exception
  of the loop (cm.py 299--300). What was written before an exception stays written.
\<close>

definition extraer_zip :: "string \<Rightarrow> miembro list \<Rightarrow> extraccion \<times> (error + string list)" where
  "extraer_zip dest_dir members =
     (case extraer_miembros dest_dir
             \<lparr>directorios = [dest_dir], escritos = [], extraidos = []\<rparr> members of
        (st, Some e) \<Rightarrow> (st, Inl RuntimeError)
      | (st, None) \<Rightarrow> (st, Inr (extraidos st)))"

text \<open>
  The segments that \<open>_sanitize_zipinfo_name\<close> keeps, before they are joined (used to
  state the lemmas about its result).
\<close>

definition partes_seguras :: "string \<Rightarrow> string list" where
  "partes_seguras name0 =
     filter (\<lambda>p. p \<noteq> [] \<and> p \<noteq> ''..'')
       (split_char CHR ''/''
         (let name1 = replace_char (CHR 0x5C) CHR ''/'' name0
          in if startswith name1 ''/'' then lstrip_char CHR ''/'' name1 else name1))"

text \<open>
  An example destination: the extraction folder that the worker makes below the temporary
  folder on the desktop (cm.py 724--725, 753, 326).
\<close>

definition destino_ejemplo :: string where
  "destino_ejemplo =
     foldl os_path_join (''C:'' @ [CHR 0x5C] @ ''Users'')
       [''u'', ''Desktop'', ''cmf_temp'', ''012024_20240131_120000'', ''extract_20240131_120000_7'']"

section \<open>Numbers\<close>

text \<open>
  Python numbers are modelled as rationals. A Python \<open>float\<close> is a binary
  double-precision number, so every arithmetic result of the source is rounded to the
  nearest such number, a tie going to the even mantissa (\<open>fl\<close>). The exponent range of
  the doubles is not modelled (no overflow, no subnormal numbers): row counts, sizes and
  percentages lie far inside it. The values that enter the computations (row counts,
  sizes in KB, the floor) are doubles as they stand.

  \<open>exponente a\<close> is the integer \<open>e\<close> with \<open>2^e \<le> a < 2^(e+1)\<close> for a positive \<open>a\<close>:
  the number of halvings that bring \<open>a\<close> below 2, or minus the number of doublings that
  bring it up to 1.
\<close>

function mitades :: "rat \<Rightarrow> nat" where
  "mitades a = (if 2 \<le> a then Suc (mitades (a / 2)) else 0)"
  by pat_completeness auto
termination
proof (relation "measure (\<lambda>a. nat \<lfloor>a\<rfloor>)")
  show "wf (measure (\<lambda>a::rat. nat \<lfloor>a\<rfloor>))" by simp
next
  fix a :: rat assume a: "2 \<le> a"
  have "a / 2 \<le> a - 1" using a by simp
  then have "\<lfloor>a / 2\<rfloor> \<le> \<lfloor>a - 1\<rfloor>" by (rule floor_mono)
  then have "\<lfloor>a / 2\<rfloor> < \<lfloor>a\<rfloor>" by simp
  moreover have "2 \<le> \<lfloor>a\<rfloor>" using a by (simp add: le_floor_iff)
  ultimately show "(a / 2, a) \<in> measure (\<lambda>a. nat \<lfloor>a\<rfloor>)" by simp
qed

function dobles :: "rat \<Rightarrow> nat" where
  "dobles a = (if 0 < a \<and> a < 1 then Suc (dobles (2 * a)) else 0)"
  by pat_completeness auto
termination
proof (relation "measure (\<lambda>a. nat \<lceil>1 / a\<rceil>)")
  show "wf (measure (\<lambda>a::rat. nat \<lceil>1 / a\<rceil>))" by simp
next
  fix a :: rat assume a: "0 < a \<and> a < 1"
  define t where "t = 1 / a"
  have t: "1 < t" using a by (simp add: t_def)
  have eq: "1 / (2 * a) = t / 2" by (simp add: t_def)
  have "\<lceil>t / 2\<rceil> < \<lceil>t\<rceil>"
  proof (cases "2 \<le> t")
    case True
    then have "t / 2 \<le> t - 1" by simp
    then have "\<lceil>t / 2\<rceil> \<le> \<lceil>t - 1\<rceil>" by (rule ceiling_mono)
    then show ?thesis by simp
  next
    case False
    then have "t / 2 \<le> 1" by simp
    then have "\<lceil>t / 2\<rceil> \<le> 1" by (simp add: ceiling_le_iff)
    moreover have "1 < \<lceil>t\<rceil>" using t by (simp add: less_ceiling_iff)
    ultimately show ?thesis by linarith
  qed
  moreover have "0 < \<lceil>t\<rceil>" using t by (simp add: less_ceiling_iff)
  ultimately show "(2 * a, a) \<in> measure (\<lambda>a. nat \<lceil>1 / a\<rceil>)"
    by (simp add: eq t_def[symmetric])
qed

declare mitades.simps [simp del] dobles.simps [simp del]

definition exponente :: "rat \<Rightarrow> int" where
  "exponente a = (if 1 \<le> a then int (mitades a) else - int (dobles a))"

text \<open>Rounding to the nearest integer, a tie going to the even one.\<close>

definition redondear_par :: "rat \<Rightarrow> int" where
  "redondear_par y =
     (let f = \<lfloor>y\<rfloor>; d = y - of_int f
      in if d < 1 / 2 then f
         else if 1 / 2 < d then f + 1
         else if even f then f else f + 1)"

text \<open>The double nearest to a rational: its mantissa has 53 binary digits.\<close>

definition fl :: "rat \<Rightarrow> rat" where
  "fl x =
     (if x = 0 then 0
      else (let u = 2 powi (exponente \<bar>x\<bar> - 52)
            in sgn x * of_int (redondear_par (\<bar>x\<bar> / u)) * u))"

text \<open>
  \<open>round(x, 2)\<close> of a double: the decimal number with two decimals nearest to the exact
  value of \<open>x\<close> (a tie going to the even last digit), and of that the nearest double.
\<close>

definition py_round2 :: "rat \<Rightarrow> rat" where
  "py_round2 x = fl (of_int (redondear_par (x * 100)) / 100)"

text \<open>
  The percentage as the source computes it (cm.py 938--939, 965--966, 995--996,
  1025--1026): \<open>round(((actual - ant) / ant) * 100, 2)\<close>, each operation in double
  arithmetic.
\<close>

definition porcentaje_cambio :: "rat \<Rightarrow> rat \<Rightarrow> rat" where
  "porcentaje_cambio actual ant = py_round2 (fl (fl (fl (actual - ant) / ant) * 100))"

section \<open>Trend classifier\<close>

datatype clasificacion =
    Sin_comparacion
  | Cambio_Leve
  | Cambio_Moderado
  | Cambio_Alto
  | Cambio_Critico

text \<open>
  \<open>clasificar_tendencia\<close> (cm.py 57--86). \<open>filas_actual\<close> and \<open>filas_base\<close> may be
  \<open>None\<close>; the threshold test is skipped for a value that is \<open>None\<close>.
\<close>

definition clasificar_tendencia :: "rat \<Rightarrow> rat option \<Rightarrow> rat option \<Rightarrow> rat \<Rightarrow> clasificacion" where
  "clasificar_tendencia porcentaje filas_actual filas_base umbral_filas_min =
     (if (case filas_actual of None \<Rightarrow> False | Some fa \<Rightarrow> fa < umbral_filas_min)
         \<or> (case filas_base of None \<Rightarrow> False | Some fb \<Rightarrow> fb < umbral_filas_min)
      then Cambio_Leve
      else (let abs_pct = \<bar>porcentaje\<bar>
            in if abs_pct \<le> 10 then Cambio_Leve
               else if abs_pct \<le> 30 then Cambio_Moderado
               else if abs_pct \<le> 50 then Cambio_Alto
               else Cambio_Critico))"

text \<open>
  The comparison against the previous period inside \<open>worker_procesar\<close>: cm.py 923--948 for
  the row count and, with the same text, 950--975 for the size. \<open>ant_val\<close> is the
  reference value (\<open>filas_ant_val\<close>, \<open>peso_ant_val\<close>), \<open>None\<close> when no row of the previous
  period was matched. The result is the pair (percentage, classification).
\<close>

definition tendencia_vs_anterior :: "rat option \<Rightarrow> rat \<Rightarrow> rat \<Rightarrow> rat option \<times> clasificacion" where
  "tendencia_vs_anterior ant_val actual umbral_filas_min =
     (case ant_val of
        None \<Rightarrow> (None, Sin_comparacion)
      | Some ant \<Rightarrow>
          if ant \<noteq> 0 then
            (if ant < 10 \<and> actual < 10 then (None, Cambio_Leve)
             else (let pct = porcentaje_cambio actual ant
                   in (Some pct,
                       clasificar_tendencia pct (Some actual) (Some ant) umbral_filas_min)))
          else (None, Sin_comparacion))"

text \<open>
  The comparison against the historical mean (cm.py 977--1005 for the row count,
  1007--1035 for the size): \<open>valores\<close> are the values of the matched historical rows.
  \<open>promedio\<close> is \<open>Series.mean()\<close>: the sum divided by the number of values, as a
  double. For row counts the sum is an integer and exact; for sizes the library adds
  doubles, and the rounding of the intermediate sums is not modelled.
\<close>

definition promedio :: "rat list \<Rightarrow> rat" where
  "promedio valores = fl (sum_list valores / of_nat (length valores))"

definition tendencia_historica :: "rat list \<Rightarrow> rat \<Rightarrow> rat \<Rightarrow> rat option \<times> clasificacion" where
  "tendencia_historica valores actual umbral_filas_min =
     (if valores = [] then (None, Sin_comparacion)
      else (let promedio_hist = promedio valores
            in if promedio_hist \<noteq> 0 then
                 (let pct = porcentaje_cambio actual promedio_hist
                  in (Some pct,
                      clasificar_tendencia pct (Some actual) (Some promedio_hist) umbral_filas_min))
               else (None, Sin_comparacion)))"

section \<open>Ledger rows and the identity matcher\<close>

text \<open>
  Rows are Python dictionaries in the source. A row of \<open>datos_mes\<close> (cm.py 863--869)
  has the five base columns; a row of the historical ledger \<open>df_historico\<close> has the
  columns of \<open>columnas_historico\<close> (cm.py 1103--1113), that is the base columns and the
  four historical columns. Sizes and row counts are numbers in every row: the size of a
  listed file can be read (\<open>obtener_tamano_kb\<close> does not return \<open>None\<close>). The
  period tag \<open>Carpeta Mes\<close> is a cell: the rows that a run makes carry the folder name
  as a text, the rows of a ledger that was loaded from its file may carry a number (see
  \<open>read_excel_historico\<close> below).
\<close>

record fila_base =
  correlativo :: nat
  nombre_archivo :: string
  tamano_kb :: rat
  cantidad_filas :: int
  carpeta_mes :: celda

record fila_hist = fila_base +
  tendencia_hist_pct :: "rat option"
  clas_hist :: clasificacion
  tendencia_hist_peso_pct :: "rat option"
  clas_hist_peso :: clasificacion

text \<open>
  \<open>calcular_similitud\<close> (cm.py 53--54). \<open>ratio\<close> stands for
  \<open>SequenceMatcher(None, x, y).ratio()\<close> of the Python library.
\<close>

definition calcular_similitud :: "(string \<Rightarrow> string \<Rightarrow> rat) \<Rightarrow> string \<Rightarrow> string \<Rightarrow> rat" where
  "calcular_similitud ratio a b = ratio (lower a) (lower b)"

text \<open>
  \<open>sort_values("_sim", ascending=False)\<close>: descending by the score. Which of several
  rows with the same score comes first is not fixed by pandas; here it is the one that
  was first before sorting.
\<close>

definition sort_values_desc :: "('a \<Rightarrow> rat) \<Rightarrow> 'a list \<Rightarrow> 'a list" where
  "sort_values_desc sim xs = sort_key (\<lambda>x. - sim x) xs"

text \<open>The search for the row of the previous period, cm.py 910--921.\<close>

definition buscar_fila_mes_ant ::
  "(string \<Rightarrow> string \<Rightarrow> rat) \<Rightarrow> fila_hist list \<Rightarrow> string \<Rightarrow> string \<Rightarrow> fila_hist option" where
  "buscar_fila_mes_ant ratio df_historico mes_anterior nombre_actual =
     (if df_historico = [] then None
      else
        (let df_mes_anterior = filter (\<lambda>f. carpeta_mes f = Texto mes_anterior) df_historico
         in if df_mes_anterior = [] then None
            else
              (let exact = filter (\<lambda>f. nombre_archivo f = nombre_actual) df_mes_anterior
               in if exact \<noteq> [] then Some (last exact)
                  else
                    (let sim = (\<lambda>f. calcular_similitud ratio (nombre_archivo f) nombre_actual);
                         ordenado = sort_values_desc sim df_mes_anterior
                     in if ordenado \<noteq> [] \<and> sim (hd ordenado) \<ge> 4 / 5
                        then Some (hd ordenado)
                        else None))))"

text \<open>
  Example data for evaluating the matcher: a similarity score computed from the common
  prefix only (a lower bound of the library's ratio, equal to it on equal strings), and a
  small ledger.
\<close>

definition ratio_prefijo :: "string \<Rightarrow> string \<Rightarrow> rat" where
  "ratio_prefijo a b =
     (if a = [] \<and> b = [] then 1
      else 2 * of_nat (length (longest_common_prefix a b)) / of_nat (length a + length b))"

definition fila_ejemplo :: "nat \<Rightarrow> string \<Rightarrow> rat \<Rightarrow> int \<Rightarrow> string \<Rightarrow> fila_hist" where
  "fila_ejemplo n nombre tam filas mes =
     \<lparr>correlativo = n, nombre_archivo = nombre, tamano_kb = tam, cantidad_filas = filas,
      carpeta_mes = Texto mes, tendencia_hist_pct = None, clas_hist = Sin_comparacion,
      tendencia_hist_peso_pct = None, clas_hist_peso = Sin_comparacion\<rparr>"

definition historico_ejemplo :: "fila_hist list" where
  "historico_ejemplo =
     [fila_ejemplo 1 ''ventas.csv'' 12 100 ''012024'',
      fila_ejemplo 2 ''stock.csv'' 8 40 ''012024'',
      fila_ejemplo 3 ''ventas.csv'' 15 120 ''012024'',
      fila_ejemplo 4 ''Reporte_Ventas_2024_a.csv'' 30 300 ''012024'',
      fila_ejemplo 1 ''ventas.csv'' 20 150 ''022024'']"

section \<open>Tables and the table reader\<close>

text \<open>A \<open>DataFrame\<close>: the column names and the rows, each row a list of cells.\<close>

record dataframe =
  columns :: "string list"
  registros :: "celda list list"

definition df_empty :: "dataframe \<Rightarrow> bool" where
  "df_empty df = (columns df = [] \<or> registros df = [])"

text \<open>\<open>pd.DataFrame({"__filas__": [filas]})\<close>, the result of the streaming mode.\<close>

definition df_filas :: "int \<Rightarrow> dataframe" where
  "df_filas filas = \<lparr>columns = [''__filas__''], registros = [[Numero (of_int filas)]]\<rparr>"

text \<open>
  The lines of a text, as iterating over a file opened in text mode yields them: the
  pieces that end in a newline, and a last piece without one when it is not empty. The
  text is the decoded content after newline translation, so the only line end is the
  newline character.
\<close>

definition lineas :: "string \<Rightarrow> string list" where
  "lineas texto =
     (let ps = split_char (CHR 0x0A) texto
      in if last ps = [] then butlast ps else ps)"

definition unir_lineas :: "string list \<Rightarrow> string" where
  "unir_lineas ls = concat (map (\<lambda>l. l @ [CHR 0x0A]) ls)"

text \<open>
  A model of \<open>pandas.read_csv(ruta, encoding=..., sep=sep)\<close> on text without quoted
  fields. Lines that hold only blanks (spaces and tabs other than the separator) are
  skipped; the first remaining line is the header; every other line is a record, split
  at the separator; a field that is one of pandas' missing-value markers is \<open>NaN\<close>, any
  other field is kept as its text (the conversion of numeric columns to numbers is not
  modelled; it changes neither the number of records nor which cells are missing); a
  short record is filled with \<open>NaN\<close>, a record longer than the header is a
  \<open>ParserError\<close> (that pandas takes the first field as the row label when every record
  has one field more than the header is not modelled) and a text without any line an
  \<open>EmptyDataError\<close>. The text is ASCII, so the three encodings of the source decode it
  alike.
\<close>

datatype codificacion = Utf8_sig | Utf8 | Latin1

definition na_values :: "string list" where
  "na_values =
     [[], ''#N/A'', ''#N/A N/A'', ''#NA'', ''-1.#IND'', ''-1.#QNAN'', ''-NaN'', ''-nan'',
      ''1.#IND'', ''1.#QNAN'', ''<NA>'', ''N/A'', ''NA'', ''NULL'', ''NaN'', ''None'',
      ''n/a'', ''nan'', ''null'']"

definition linea_en_blanco :: "char \<Rightarrow> string \<Rightarrow> bool" where
  "linea_en_blanco sep l = list_all (\<lambda>c. (c = CHR '' '' \<or> c = CHR 0x09) \<and> c \<noteq> sep) l"

definition celda_de_campo :: "string \<Rightarrow> celda" where
  "celda_de_campo campo = (if campo \<in> set na_values then NaN else Texto campo)"

definition read_csv :: "codificacion \<Rightarrow> char \<Rightarrow> string \<Rightarrow> error + dataframe" where
  "read_csv encoding sep texto =
     (case filter (\<lambda>l. \<not> linea_en_blanco sep l) (lineas texto) of
        [] \<Rightarrow> Inl EmptyDataError
      | cabecera # datos_csv \<Rightarrow>
          (let cols = split_char sep cabecera;
               regs = map (split_char sep) datos_csv
           in if list_ex (\<lambda>r. length cols < length r) regs then Inl ParserError
              else Inr \<lparr>columns = cols,
                        registros =
                          map (\<lambda>r. map celda_de_campo r @ replicate (length cols - length r) NaN)
                            regs\<rparr>))"

text \<open>
  The two nested loops of the delimited-text branch (cm.py 368--376): the first
  combination that parses and has more than one column, or uses the comma, is returned.
\<close>

fun probar_lecturas :: "string \<Rightarrow> (codificacion \<times> char) list \<Rightarrow> error + dataframe" where
  "probar_lecturas texto [] = Inl RuntimeError"
| "probar_lecturas texto ((encoding, sep) # resto) =
     (case read_csv encoding sep texto of
        Inl e \<Rightarrow> probar_lecturas texto resto
      | Inr df \<Rightarrow>
          if 1 < length (columns df) \<or> sep = CHR '','' then Inr df
          else probar_lecturas texto resto)"

definition combinaciones :: "(codificacion \<times> char) list" where
  "combinaciones = List.product [Utf8_sig, Utf8, Latin1] [CHR '','', CHR '';'', CHR 0x09]"

text \<open>
  The delimited-text branch of \<open>leer_archivo_generico\<close> (cm.py 362--376), from the size
  of the file in bytes and its text. \<open>size_mb > 10\<close> with
  \<open>size_mb = size / (1024 * 1024)\<close> is \<open>size > 10 * 1024 * 1024\<close>.
\<close>

definition umbral_streaming :: nat where
  "umbral_streaming = 10 * 1024 * 1024"

definition leer_csv_txt :: "nat \<Rightarrow> string \<Rightarrow> error + dataframe" where
  "leer_csv_txt size_bytes texto =
     (if umbral_streaming < size_bytes
      then Inr (df_filas (int (length (lineas texto)) - 1))
      else probar_lecturas texto combinaciones)"

text \<open>
  The environment of a run: what the file system and the libraries answer. \<open>existe\<close> is
  \<open>os.path.exists\<close>, \<open>getsize\<close> is \<open>os.path.getsize\<close>, \<open>contenido\<close> the decoded text
  of a file, \<open>lector_externo\<close> the result of the library reader that the branch for the
  file's extension calls (xlrd, openpyxl, \<open>read_excel\<close>, \<open>read_json\<close>,
  \<open>read_parquet\<close>, \<open>read_html\<close>, \<open>read_table\<close>), \<open>os_relpath\<close> is
  \<open>os.path.relpath\<close>, \<open>seq_ratio\<close> is \<open>SequenceMatcher(None, x, y).ratio()\<close>.
  \<open>listar\<close> is the outcome of the listing of a period folder
  (\<open>expandir_y_listar_archivos_para_procesar\<close> inside the retry loop of cm.py 761--785):
  the items, or the error that ends the run there. \<open>cancelado k\<close> is what
  \<open>cancel_event.is_set()\<close> answers the \<open>k\<close>-th time the worker asks (counting from 0).
\<close>

record item =
  path :: string
  original :: string
  internal_path :: string

record entorno =
  existe :: "string \<Rightarrow> bool"
  getsize :: "string \<Rightarrow> nat"
  contenido :: "string \<Rightarrow> string"
  lector_externo :: "string \<Rightarrow> error + dataframe"
  os_relpath :: "string \<Rightarrow> string \<Rightarrow> string"
  seq_ratio :: "string \<Rightarrow> string \<Rightarrow> rat"
  listar :: "string \<Rightarrow> error + item list"
  cancelado :: "nat \<Rightarrow> bool"

text \<open>
  \<open>leer_archivo_generico\<close> (cm.py 356--450; lista.py has the same function). The
  branches for binary formats hand over to the library reader; where the source wraps
  the library's exception the error is \<open>RuntimeError\<close>.
\<close>

definition envolver :: "error + dataframe \<Rightarrow> error + dataframe" where
  "envolver r = (case r of Inl e \<Rightarrow> Inl RuntimeError | Inr df \<Rightarrow> Inr df)"

definition leer_archivo_generico :: "entorno \<Rightarrow> string \<Rightarrow> error + dataframe" where
  "leer_archivo_generico env ruta =
     (if \<not> existe env ruta then Inl OSError
      else
        (let ext = lower (splitext_ext ruta);
             name = lower (os_path_basename ruta);
             grande = umbral_streaming < getsize env ruta
         in if endswith name ''.csv'' \<or> endswith name ''.csv.gz'' \<or> endswith name ''.csv.bz2''
               \<or> endswith name ''.csv.xz'' \<or> ext = ''.txt''
            then leer_csv_txt (getsize env ruta) (contenido env ruta)
            else if ext = ''.xls'' then envolver (lector_externo env ruta)
            else if ext \<in> set [''.xlsx'', ''.xlsm'', ''.ods''] then lector_externo env ruta
            else if ext = ''.json'' then
              (if grande then Inr (df_filas (int (length (lineas (contenido env ruta)))))
               else lector_externo env ruta)
            else if ext = ''.parquet'' then envolver (lector_externo env ruta)
            else if ext \<in> set [''.html'', ''.htm''] then lector_externo env ruta
            else if ext \<in> set [''.log'', ''.conf''] then
              (if grande then Inr (df_filas (int (length (lineas (contenido env ruta)))))
               else (case lector_externo env ruta of
                       Inl e \<Rightarrow> Inr \<lparr>columns = [], registros = []\<rparr>
                     | Inr df \<Rightarrow> Inr df))
            else Inl RuntimeError))"

text \<open>
  \<open>contar_filas_validas\<close> (cm.py 686--697). For a table whose only column is
  \<open>__filas__\<close> the first cell is converted with \<open>int()\<close>: a number is truncated, a
  missing value or a text that is not an integer literal raises, and so does a table
  without rows. Otherwise the rows in which every cell is missing are dropped.
\<close>

definition py_strip :: "string \<Rightarrow> string" where
  "py_strip s =
     (let espacio = (\<lambda>c. c \<in> set [CHR '' '', CHR 0x09, CHR 0x0A, CHR 0x0B, CHR 0x0C, CHR 0x0D,
                                    CHR 0x1C, CHR 0x1D, CHR 0x1E, CHR 0x1F, CHR 0x85, CHR 0xA0])
      in rev (dropWhile espacio (rev (dropWhile espacio s))))"

definition entero_de_texto :: "string \<Rightarrow> int option" where
  "entero_de_texto s =
     (let t = py_strip s;
          negativo = (t \<noteq> [] \<and> hd t = CHR ''-'');
          ds = (if t \<noteq> [] \<and> (hd t = CHR ''-'' \<or> hd t = CHR ''+'') then tl t else t)
      in if isdigit ds
         then Some (if negativo then - int (valor_decimal ds) else int (valor_decimal ds))
         else None)"

definition truncar :: "rat \<Rightarrow> int" where
  "truncar r = (if 0 \<le> r then \<lfloor>r\<rfloor> else \<lceil>r\<rceil>)"

definition py_int :: "celda \<Rightarrow> error + int" where
  "py_int c =
     (case c of
        NaN \<Rightarrow> Inl ValueError
      | Numero r \<Rightarrow> Inr (truncar r)
      | Texto s \<Rightarrow> (case entero_de_texto s of None \<Rightarrow> Inl ValueError | Some n \<Rightarrow> Inr n))"

definition contar_filas_validas :: "dataframe \<Rightarrow> error + int" where
  "contar_filas_validas df =
     (if ''__filas__'' \<in> set (columns df) \<and> length (columns df) = 1 then
        (case registros df of
           [] \<Rightarrow> Inl IndexError
         | r # rs \<Rightarrow> (case r of [] \<Rightarrow> Inl IndexError | c # cs \<Rightarrow> py_int c))
      else Inr (int (length (filter (\<lambda>r. \<not> list_all (\<lambda>c. c = NaN) r) (registros df)))))"

text \<open>
  The row count that \<open>worker_procesar\<close> records for a read (cm.py 837--845): the count
  of the table, and 0 when the read raised.
\<close>

definition filas_de_lectura :: "error + dataframe \<Rightarrow> error + int" where
  "filas_de_lectura lectura =
     (case lectura of Inl e \<Rightarrow> Inr 0 | Inr df \<Rightarrow> contar_filas_validas df)"

definition csv_ejemplo :: string where
  "csv_ejemplo = unir_lineas [''a,b'', ''1,2'', ''3,4'']"

definition csv_con_linea_en_blanco :: string where
  "csv_con_linea_en_blanco = unir_lineas [''a,b'', ''1,2'', [], ''3,4'']"

section \<open>The per-file loop of the worker\<close>

text \<open>
  The detail of missing cells (cm.py 848--861). A cell is null when it is missing or a
  text that is empty after \<open>strip()\<close>. Every row with a null cell gives one entry; the
  entries are numbered from 2 in the order of these rows; \<open>dn_columnas\<close> are the names of
  the affected columns (joined with a comma in the written file).
\<close>

definition celda_nula :: "celda \<Rightarrow> bool" where
  "celda_nula c = (case c of NaN \<Rightarrow> True | Texto s \<Rightarrow> py_strip s = [] | Numero r \<Rightarrow> False)"

record detalle_nulo =
  dn_archivo :: string
  dn_ruta :: string
  dn_fila :: nat
  dn_columnas :: "string list"

definition detalle_nulos_de :: "dataframe \<Rightarrow> string \<Rightarrow> string \<Rightarrow> detalle_nulo list" where
  "detalle_nulos_de df nombre ruta =
     (let filas_con_nulos = filter (list_ex celda_nula) (registros df)
      in map (\<lambda>(i, fila).
                \<lparr>dn_archivo = nombre, dn_ruta = ruta, dn_fila = i,
                 dn_columnas = map fst (filter (\<lambda>(col, c). celda_nula c) (zip (columns df) fila))\<rparr>)
           (zip [2 ..< 2 + length filas_con_nulos] filas_con_nulos))"

text \<open>\<open>obtener_tamano_kb\<close> (cm.py 456--462) for a file whose size can be read.\<close>

definition obtener_tamano_kb :: "entorno \<Rightarrow> string \<Rightarrow> rat" where
  "obtener_tamano_kb env ruta = fl (of_nat (getsize env ruta) / 1024)"

text \<open>The name shown for an item (cm.py 817--822) and its size (cm.py 824).\<close>

definition nombre_mostrado :: "entorno \<Rightarrow> string \<Rightarrow> item \<Rightarrow> string" where
  "nombre_mostrado env ruta_mes it =
     (if internal_path it \<noteq> [] then replace_char (CHR 0x5C) CHR ''/'' (internal_path it)
      else replace_char (CHR 0x5C) CHR ''/'' (os_relpath env (path it) ruta_mes))"

definition tamano_item :: "entorno \<Rightarrow> item \<Rightarrow> rat" where
  "tamano_item env it =
     (if existe env (original it) then obtener_tamano_kb env (original it)
      else obtener_tamano_kb env (path it))"

text \<open>
  The body of the loop over the files of a period (cm.py 815--873), without the
  messages to the queue and the log. The source reads the file twice in a row (826--835
  and 837--843); the environment answers both reads alike and the second result is the
  one used. An exception of the read is caught: the table is \<open>None\<close> and the row count
  0. An exception of \<open>contar_filas_validas\<close> is not caught and leaves the loop.
\<close>

record estado_archivos =
  datos_mes :: "fila_base list"
  detalle_nulos :: "detalle_nulo list"
  correlativo_act :: nat
  sondeos :: nat

definition procesar_archivo ::
  "entorno \<Rightarrow> string \<Rightarrow> string \<Rightarrow> estado_archivos \<Rightarrow> item \<Rightarrow> error + estado_archivos" where
  "procesar_archivo env ruta_mes mes_carpeta st it =
     (let nombre = nombre_mostrado env ruta_mes it;
          size_kb = tamano_item env it;
          df = leer_archivo_generico env (path it)
      in case filas_de_lectura df of
           Inl e \<Rightarrow> Inl e
         | Inr filas_validas \<Rightarrow>
             Inr (st\<lparr>datos_mes := datos_mes st @
                         [\<lparr>correlativo = correlativo_act st, nombre_archivo = nombre,
                           tamano_kb = size_kb, cantidad_filas = filas_validas,
                           carpeta_mes = Texto mes_carpeta\<rparr>],
                     detalle_nulos := detalle_nulos st @
                         (case df of
                            Inl e \<Rightarrow> []
                          | Inr d \<Rightarrow> if df_empty d then []
                                     else detalle_nulos_de d nombre (path it)),
                     correlativo_act := Suc (correlativo_act st)\<rparr>))"

text \<open>
  The loop itself (cm.py 810--813): before each file the worker asks the cancellation
  event and leaves the loop when it is set.
\<close>

fun bucle_archivos ::
  "entorno \<Rightarrow> string \<Rightarrow> string \<Rightarrow> estado_archivos \<Rightarrow> item list \<Rightarrow> error + estado_archivos" where
  "bucle_archivos env ruta_mes mes_carpeta st [] = Inr st"
| "bucle_archivos env ruta_mes mes_carpeta st (it # resto) =
     (if cancelado env (sondeos st) then Inr (st\<lparr>sondeos := Suc (sondeos st)\<rparr>)
      else (case procesar_archivo env ruta_mes mes_carpeta (st\<lparr>sondeos := Suc (sondeos st)\<rparr>) it of
              Inl e \<Rightarrow> Inl e
            | Inr st' \<Rightarrow> bucle_archivos env ruta_mes mes_carpeta st' resto))"

text \<open>Only the first item of each base name is kept (cm.py 787--794).\<close>

fun quitar_duplicados :: "string list \<Rightarrow> item list \<Rightarrow> item list" where
  "quitar_duplicados nombres_vistos [] = []"
| "quitar_duplicados nombres_vistos (it # resto) =
     (let nombre_a = os_path_basename (path it)
      in if nombre_a \<in> set nombres_vistos then quitar_duplicados nombres_vistos resto
         else it # quitar_duplicados (nombre_a # nombres_vistos) resto)"

section \<open>Trend rows and the ledger\<close>

text \<open>
  A row of \<open>datos_tendencia\<close> (cm.py 891--906 and 1038--1055): the ledger columns and
  the columns of the comparison with the previous period.
\<close>

record fila_tendencia = fila_hist +
  nombre_mes_anterior :: string
  tamano_mes_anterior :: "rat option"
  filas_mes_anterior :: "int option"
  tendencia_pct :: "rat option"
  clas_mes_anterior :: clasificacion
  tendencia_peso_pct :: "rat option"
  clas_peso_mes_anterior :: clasificacion

text \<open>The historical rows that count as the same file (cm.py 981--985, 1011--1015).\<close>

definition similares :: "entorno \<Rightarrow> fila_hist list \<Rightarrow> string \<Rightarrow> string \<Rightarrow> fila_hist list" where
  "similares env hist mes_carpeta nombre_actual =
     filter (\<lambda>f. carpeta_mes f \<noteq> Texto mes_carpeta
                 \<and> (nombre_archivo f = nombre_actual
                    \<or> 4 / 5 \<le> calcular_similitud (seq_ratio env) (nombre_archivo f) nombre_actual))
       hist"

text \<open>One pass of the loop over the rows of the period (cm.py 884--1055).\<close>

definition enriquecer ::
  "entorno \<Rightarrow> rat \<Rightarrow> fila_hist list \<Rightarrow> string option \<Rightarrow> string \<Rightarrow> fila_base \<Rightarrow> fila_tendencia" where
  "enriquecer env umbral_filas_min hist mes_anterior mes_carpeta row =
     (case mes_anterior of
        None \<Rightarrow>
          \<lparr>correlativo = correlativo row, nombre_archivo = nombre_archivo row,
           tamano_kb = tamano_kb row, cantidad_filas = cantidad_filas row,
           carpeta_mes = Texto mes_carpeta,
           tendencia_hist_pct = None, clas_hist = Sin_comparacion,
           tendencia_hist_peso_pct = None, clas_hist_peso = Sin_comparacion,
           nombre_mes_anterior = [], tamano_mes_anterior = None, filas_mes_anterior = None,
           tendencia_pct = None, clas_mes_anterior = Sin_comparacion,
           tendencia_peso_pct = None, clas_peso_mes_anterior = Sin_comparacion\<rparr>
      | Some ma \<Rightarrow>
          (let nombre_actual = nombre_archivo row;
               size_actual = tamano_kb row;
               filas_actual = of_int (cantidad_filas row);
               fila_mes_ant = buscar_fila_mes_ant (seq_ratio env) hist ma nombre_actual;
               t_filas = tendencia_vs_anterior
                           (map_option (\<lambda>f. of_int (cantidad_filas f)) fila_mes_ant)
                           filas_actual umbral_filas_min;
               t_peso = tendencia_vs_anterior (map_option tamano_kb fila_mes_ant)
                           size_actual umbral_filas_min;
               df_similares = similares env hist mes_carpeta nombre_actual;
               t_hist = tendencia_historica (map (\<lambda>f. of_int (cantidad_filas f)) df_similares)
                           filas_actual umbral_filas_min;
               t_hist_peso = tendencia_historica (map tamano_kb df_similares)
                           size_actual umbral_filas_min
           in \<lparr>correlativo = correlativo row, nombre_archivo = nombre_actual,
                tamano_kb = size_actual, cantidad_filas = cantidad_filas row,
                carpeta_mes = Texto mes_carpeta,
                tendencia_hist_pct = fst t_hist, clas_hist = snd t_hist,
                tendencia_hist_peso_pct = fst t_hist_peso, clas_hist_peso = snd t_hist_peso,
                nombre_mes_anterior =
                  (case fila_mes_ant of None \<Rightarrow> [] | Some f \<Rightarrow> nombre_archivo f),
                tamano_mes_anterior = map_option tamano_kb fila_mes_ant,
                filas_mes_anterior = map_option cantidad_filas fila_mes_ant,
                tendencia_pct = fst t_filas, clas_mes_anterior = snd t_filas,
                tendencia_peso_pct = fst t_peso, clas_peso_mes_anterior = snd t_peso\<rparr>))"

text \<open>\<open>df_mes[cols_presentes]\<close> (cm.py 1103--1115): the ledger columns of a trend row.\<close>

definition a_historico :: "fila_tendencia \<Rightarrow> fila_hist" where
  "a_historico r =
     \<lparr>correlativo = correlativo r, nombre_archivo = nombre_archivo r,
      tamano_kb = tamano_kb r, cantidad_filas = cantidad_filas r,
      carpeta_mes = carpeta_mes r,
      tendencia_hist_pct = tendencia_hist_pct r, clas_hist = clas_hist r,
      tendencia_hist_peso_pct = tendencia_hist_peso_pct r, clas_hist_peso = clas_hist_peso r\<rparr>"

text \<open>
  The merge of a period into the ledger (cm.py 1097--1117): nothing happens when the
  period has no rows; otherwise the rows of the period are removed from the ledger and
  the new rows are put at its end.
\<close>

definition fusionar_historico :: "fila_hist list \<Rightarrow> string \<Rightarrow> fila_tendencia list \<Rightarrow> fila_hist list" where
  "fusionar_historico hist mes_carpeta df_mes =
     (if df_mes \<noteq> []
      then filter (\<lambda>f. carpeta_mes f \<noteq> Texto mes_carpeta) hist @ map a_historico df_mes
      else hist)"

text \<open>
  The ledger file. A run writes the ledger with \<open>to_excel\<close> and then restyles the file
  with \<open>formatear_excel\<close> (cm.py 1135--1136), which replaces each number of the size
  column by the size in the unit of its display format (cm.py 525--544): bytes below
  1 KB, KB below 1 MB, MB below 1 GB, GB above.
\<close>

definition formatear_excel :: "fila_hist list \<Rightarrow> fila_hist list" where
  "formatear_excel filas =
     map (\<lambda>f. f\<lparr>tamano_kb :=
                  (let size_bytes = fl (tamano_kb f * 1024)
                   in if size_bytes < 1024 then size_bytes
                      else if size_bytes < 1024 ^ 2 then fl (size_bytes / 1024)
                      else if size_bytes < 1024 ^ 3 then fl (size_bytes / 1024 ^ 2)
                      else fl (size_bytes / 1024 ^ 3))\<rparr>) filas"

text \<open>
  The next run loads the file with \<open>pd.read_excel\<close> (cm.py 735), which converts a
  column to numbers when every cell of it reads as a number. The period tags are folder
  names of six digits, so the tag column of a loaded ledger holds numbers: the tag
  \<open>012024\<close> comes back as the number 12024. The column is left as it is when some tag
  is not made of the digits 0 to 9. The other columns come back with the values that the
  file holds (names that all read as numbers are not modelled).
\<close>

definition solo_digitos :: "string \<Rightarrow> bool" where
  "solo_digitos s = (s \<noteq> [] \<and> list_all (\<lambda>c. CHR ''0'' \<le> c \<and> c \<le> CHR ''9'') s)"

definition read_excel_historico :: "fila_hist list \<Rightarrow> fila_hist list" where
  "read_excel_historico filas =
     (if list_all (\<lambda>f. case carpeta_mes f of Texto s \<Rightarrow> solo_digitos s | _ \<Rightarrow> True) filas
      then map (\<lambda>f. f\<lparr>carpeta_mes :=
                         (case carpeta_mes f of
                            Texto s \<Rightarrow> Numero (of_nat (valor_decimal s))
                          | c \<Rightarrow> c)\<rparr>) filas
      else filas)"

section \<open>The worker\<close>

text \<open>
  The state of \<open>worker_procesar\<close> between periods: the ledger \<open>df_historico\<close>, the
  dictionary \<open>resultados_mensuales\<close>, the period summaries and null details written so
  far, and how often the cancellation event has been asked.
\<close>

record estado_worker =
  historico :: "fila_hist list"
  resultados_mensuales :: "(string \<times> fila_tendencia list) list"
  resumenes :: "(string \<times> fila_tendencia list) list"
  detalles :: "(string \<times> detalle_nulo list) list"
  sondeos_w :: nat

text \<open>
  The rows of a period (cm.py 756--1057): \<open>None\<close> when the period folder has no file
  (the \<open>continue\<close> of line 803), otherwise the trend rows, the null details and the number
  of times the event has been asked.
\<close>

definition filas_mes ::
  "entorno \<Rightarrow> rat \<Rightarrow> string \<Rightarrow> string option \<Rightarrow> string \<Rightarrow> estado_worker
     \<Rightarrow> error + (fila_tendencia list \<times> detalle_nulo list \<times> nat) option" where
  "filas_mes env umbral_filas_min carpeta_base mes_anterior mes_carpeta st =
     (let ruta_mes = os_path_join carpeta_base mes_carpeta
      in case listar env ruta_mes of
           Inl e \<Rightarrow> Inl e
         | Inr items \<Rightarrow>
             (let archivos = quitar_duplicados [] items
              in if archivos = [] then Inr None
                 else
                   (case bucle_archivos env ruta_mes mes_carpeta
                           \<lparr>datos_mes = [], detalle_nulos = [], correlativo_act = 1,
                            sondeos = sondeos_w st\<rparr> archivos of
                      Inl e \<Rightarrow> Inl e
                    | Inr fa \<Rightarrow>
                        Inr (Some (map (enriquecer env umbral_filas_min (historico st)
                                          mes_anterior mes_carpeta) (datos_mes fa),
                                   detalle_nulos fa, sondeos fa)))))"

text \<open>
  One period (cm.py 752--1129): its rows, the summary and the null detail that are
  written, and the merge into the ledger.
\<close>

definition procesar_mes ::
  "entorno \<Rightarrow> rat \<Rightarrow> string \<Rightarrow> string option \<Rightarrow> string \<Rightarrow> estado_worker
     \<Rightarrow> error + estado_worker" where
  "procesar_mes env umbral_filas_min carpeta_base mes_anterior mes_carpeta st =
     (case filas_mes env umbral_filas_min carpeta_base mes_anterior mes_carpeta st of
        Inl e \<Rightarrow> Inl e
      | Inr None \<Rightarrow> Inr st
      | Inr (Some (df_mes, nulos, k)) \<Rightarrow>
          Inr \<lparr>historico = fusionar_historico (historico st) mes_carpeta df_mes,
               resultados_mensuales =
                 (if df_mes \<noteq> []
                  then filter (\<lambda>(m, d). m \<noteq> mes_carpeta) (resultados_mensuales st)
                         @ [(mes_carpeta, df_mes)]
                  else resultados_mensuales st),
               resumenes = resumenes st @ [(mes_carpeta, df_mes)],
               detalles = (if nulos \<noteq> [] then detalles st @ [(mes_carpeta, nulos)]
                           else detalles st),
               sondeos_w = k\<rparr>)"

text \<open>
  The loop over the periods (cm.py 744--750): the event is asked before each period.
  \<open>mes_anterior\<close> is the entry before the current one in \<open>carpetas_mes\<close>.
\<close>

fun bucle_meses ::
  "entorno \<Rightarrow> rat \<Rightarrow> string \<Rightarrow> string option \<Rightarrow> estado_worker \<Rightarrow> string list
     \<Rightarrow> error + estado_worker" where
  "bucle_meses env umbral_filas_min carpeta_base mes_anterior st [] = Inr st"
| "bucle_meses env umbral_filas_min carpeta_base mes_anterior st (mes_carpeta # resto) =
     (if cancelado env (sondeos_w st) then Inr (st\<lparr>sondeos_w := Suc (sondeos_w st)\<rparr>)
      else (case procesar_mes env umbral_filas_min carpeta_base mes_anterior mes_carpeta
                   (st\<lparr>sondeos_w := Suc (sondeos_w st)\<rparr>) of
              Inl e \<Rightarrow> Inl e
            | Inr st' \<Rightarrow>
                bucle_meses env umbral_filas_min carpeta_base (Some mes_carpeta) st' resto))"

text \<open>
  \<open>worker_procesar\<close> (cm.py 703--1153). \<open>respuesta\<close> is the answer of
  \<open>preguntar_y_borrar_duplicados_tk\<close>, \<open>listdir\<close> the content of the base folder,
  \<open>cargado\<close> the ledger read from \<open>historico_completo.xlsx\<close> at cm.py 732--739 (empty
  when the file is absent or unreadable). Before that, \<open>preguntar_y_borrar_duplicados_tk\<close>
  has asked to move an existing ledger file to a backup folder (cm.py 651--662); the file
  is still there, and is loaded, when the move failed, which
  \<open>mover_a_backup_escritorio\<close> reports and survives (cm.py 634--636). A run that reaches
  the end writes the ledger of its last state (cm.py 1131--1141); a run that an error ends
  writes none.
\<close>

datatype salida =
    Cancelado_por_usuario
  | Sin_carpetas
  | Interrumpido error
  | Finalizado estado_worker

definition worker_procesar ::
  "entorno \<Rightarrow> bool \<Rightarrow> (string \<times> bool) list \<Rightarrow> fila_hist list \<Rightarrow> string \<Rightarrow> rat \<Rightarrow> salida" where
  "worker_procesar env respuesta listdir cargado carpeta_base umbral_filas_min =
     (if \<not> respuesta then Cancelado_por_usuario
      else
        (let carpetas_mes = buscar_carpetas_mes listdir
         in if carpetas_mes = [] then Sin_carpetas
            else
              (case bucle_meses env umbral_filas_min carpeta_base None
                      \<lparr>historico = cargado, resultados_mensuales = [], resumenes = [],
                       detalles = [], sondeos_w = 0\<rparr> carpetas_mes of
                 Inl e \<Rightarrow> Interrumpido e
               | Inr st \<Rightarrow> Finalizado st)))"

definition historico_guardado :: "salida \<Rightarrow> fila_hist list option" where
  "historico_guardado s = (case s of Finalizado st \<Rightarrow> Some (historico st) | _ \<Rightarrow> None)"

section \<open>The file loop of lista.py\<close>

text \<open>
  The body of the loop over the files in \<open>procesar_carpeta_base\<close> (lista.py 506--529).
  A file that is read gives a row of \<open>historico_data\<close>; when the read, or the access to
  the first \<open>__filas__\<close> cell, raises, the file gives an entry of \<open>nulos_detalle\<close> with
  the error and no row.
\<close>

definition extraer_mes_anio :: "string \<Rightarrow> string" where
  "extraer_mes_anio nombre_carpeta =
     (if length nombre_carpeta = 6 \<and> isdigit nombre_carpeta
      then take 2 nombre_carpeta @ ''/'' @ drop 2 nombre_carpeta
      else ''Desconocido'')"

record fila_lista =
  l_mes :: string
  l_archivo :: string
  l_filas :: celda
  l_tamano :: "rat option"
  l_ruta :: string

record error_lista =
  e_mes :: string
  e_archivo :: string
  e_ruta :: string
  e_error :: error

record estado_lista =
  historico_data :: "fila_lista list"
  nulos_detalle :: "error_lista list"

definition filas_lista :: "dataframe \<Rightarrow> error + celda" where
  "filas_lista df =
     (if ''__filas__'' \<notin> set (columns df) then Inr (Numero (of_nat (length (registros df))))
      else (case registros df of
              [] \<Rightarrow> Inl KeyError
            | r # rs \<Rightarrow> (case map_of (zip (columns df) r) ''__filas__'' of
                           None \<Rightarrow> Inl KeyError
                         | Some c \<Rightarrow> Inr c)))"

definition procesar_archivo_lista :: "entorno \<Rightarrow> string \<Rightarrow> estado_lista \<Rightarrow> item \<Rightarrow> estado_lista" where
  "procesar_archivo_lista env mes st it =
     (let registrar_error = (\<lambda>e. st\<lparr>nulos_detalle := nulos_detalle st @
                                   [\<lparr>e_mes = extraer_mes_anio mes,
                                     e_archivo = os_path_basename (path it),
                                     e_ruta = path it, e_error = e\<rparr>]\<rparr>)
      in case leer_archivo_generico env (path it) of
           Inl e \<Rightarrow> registrar_error e
         | Inr df \<Rightarrow>
             (case filas_lista df of
                Inl e \<Rightarrow> registrar_error e
              | Inr filas \<Rightarrow>
                  (let size_kb = obtener_tamano_kb env (path it)
                   in st\<lparr>historico_data := historico_data st @
                           [\<lparr>l_mes = extraer_mes_anio mes,
                             l_archivo = os_path_basename (path it),
                             l_filas = filas,
                             l_tamano = (if size_kb \<noteq> 0 then Some (py_round2 size_kb) else None),
                             l_ruta = path it\<rparr>]\<rparr>)))"

section \<open>An example run\<close>

text \<open>
  A base folder \<open>/base\<close> with the periods \<open>012024\<close> and \<open>022024\<close>. The listing
  of the first gives two delimited files, the listing of the second one; every file
  exists, has 2048 bytes and holds the text \<open>csv_ejemplo\<close>; the library readers fail.
  The paths are the ones that \<open>os.path.join\<close> makes from the base folder, the period
  and the file name. The answers of the cancellation event are a parameter.
\<close>

definition item_simple :: "string \<Rightarrow> item" where
  "item_simple p = \<lparr>path = p, original = p, internal_path = []\<rparr>"

definition ruta_ejemplo :: "string \<Rightarrow> string \<Rightarrow> string" where
  "ruta_ejemplo mes nombre = os_path_join (os_path_join ''/base'' mes) nombre"

definition entorno_ejemplo :: "(nat \<Rightarrow> bool) \<Rightarrow> entorno" where
  "entorno_ejemplo cancel =
     \<lparr>existe = (\<lambda>p. True),
      getsize = (\<lambda>p. 2048),
      contenido = (\<lambda>p. csv_ejemplo),
      lector_externo = (\<lambda>p. Inl LectorError),
      os_relpath = (\<lambda>p inicio. drop (Suc (length inicio)) p),
      seq_ratio = ratio_prefijo,
      listar = (\<lambda>ruta. if ruta = os_path_join ''/base'' ''012024''
                        then Inr [item_simple (ruta_ejemplo ''012024'' ''a.csv''),
                                  item_simple (ruta_ejemplo ''012024'' ''b.csv'')]
                        else if ruta = os_path_join ''/base'' ''022024''
                        then Inr [item_simple (ruta_ejemplo ''022024'' ''a.csv'')]
                        else Inr []),
      cancelado = cancel\<rparr>"

text \<open>A trend row without comparisons, and the table that \<open>csv_ejemplo\<close> parses to.\<close>

definition fila_tendencia_ejemplo :: "nat \<Rightarrow> string \<Rightarrow> rat \<Rightarrow> int \<Rightarrow> string \<Rightarrow> fila_tendencia" where
  "fila_tendencia_ejemplo n nombre tam filas mes =
     \<lparr>correlativo = n, nombre_archivo = nombre, tamano_kb = tam, cantidad_filas = filas,
      carpeta_mes = Texto mes, tendencia_hist_pct = None, clas_hist = Sin_comparacion,
      tendencia_hist_peso_pct = None, clas_hist_peso = Sin_comparacion,
      nombre_mes_anterior = [], tamano_mes_anterior = None, filas_mes_anterior = None,
      tendencia_pct = None, clas_mes_anterior = Sin_comparacion,
      tendencia_peso_pct = None, clas_peso_mes_anterior = Sin_comparacion\<rparr>"

definition df_ejemplo :: dataframe where
  "df_ejemplo = \<lparr>columns = [''a'', ''b''],
                  registros = [[Texto ''1'', Texto ''2''], [Texto ''3'', Texto ''4'']]\<rparr>"

section \<open>Verified properties\<close>

subsection \<open>Period scanner\<close>

lemma buscar_carpetas_mes_set:
  "set (buscar_carpetas_mes listdir) =
     {entry. (entry, True) \<in> set listdir \<and> length entry = 6 \<and> isdigit entry}"
  by (auto simp: buscar_carpetas_mes_def image_iff)

lemma buscar_carpetas_mes_sorted: "sorted (buscar_carpetas_mes listdir)"
  by (simp add: buscar_carpetas_mes_def)

text \<open>
  Claim C8. Period scanning keeps the sub-directories whose name is a six-digit token and
  sorts them ascending as strings. For \<open>MMYYYY\<close> tokens that order is not the
  chronological one the comment at the sort promises: with the folders of December 2024
  and January 2025 the scan returns January 2025 first, although December 2024 is the
  earlier month.
\<close>

theorem buscar_carpetas_mes_no_cronologico:
  "buscar_carpetas_mes [(''122024'', True), (''012025'', True)] = [''012025'', ''122024'']
   \<and> antes_cronologico ''122024'' ''012025''"
  by (simp add: buscar_carpetas_mes_def isdigit_def char_isdigit_def antes_cronologico_def
      anio_de_def mes_de_def valor_decimal_def)

subsection \<open>Path sanitizer\<close>

lemma split_char_ne [simp]: "split_char c s \<noteq> []"
  by (induction s) (auto split: list.splits)

lemma split_char_no_sep: "p \<in> set (split_char c s) \<Longrightarrow> c \<notin> set p"
  by (induction s arbitrary: p) (auto split: list.splits if_splits)

lemma split_char_append_sep:
  "split_char c (a @ c # b) = split_char c a @ split_char c b"
  by (induction a) (auto split: list.splits)

lemma split_char_no_occ: "c \<notin> set s \<Longrightarrow> split_char c s = [s]"
  by (induction s) auto

lemma split_join_char:
  "ps \<noteq> [] \<Longrightarrow> (\<forall>p \<in> set ps. c \<notin> set p) \<Longrightarrow> split_char c (join_char c ps) = ps"
proof (induction c ps rule: join_char.induct)
  case (1 c)
  then show ?case by simp
next
  case (2 c p)
  then show ?case by (simp add: split_char_no_occ)
next
  case (3 c p q ps)
  then show ?case by (simp add: split_char_append_sep split_char_no_occ)
qed

lemma split_char_subset: "q \<in> set (split_char c s) \<Longrightarrow> set q \<subseteq> set s"
proof (induction s arbitrary: q)
  case Nil
  then show ?case by simp
next
  case (Cons x xs)
  obtain w ws where w: "split_char c xs = w # ws"
    by (cases "split_char c xs") auto
  have "set w \<subseteq> set xs" "\<And>r. r \<in> set ws \<Longrightarrow> set r \<subseteq> set xs"
    using Cons.IH w by auto
  then show ?case using Cons.prems w by (auto split: if_splits)
qed

lemma sanitize_partes: "sanitize_zipinfo_name n = join_char CHR ''/'' (partes_seguras n)"
  by (simp add: sanitize_zipinfo_name_def partes_seguras_def Let_def)

lemma partes_seguras_prop:
  assumes "p \<in> set (partes_seguras n)"
  shows "p \<noteq> []" "p \<noteq> ''..''" "CHR ''/'' \<notin> set p" "CHR 0x5C \<notin> set p"
proof -
  let ?n1 = "replace_char (CHR 0x5C) CHR ''/'' n"
  let ?n2 = "if startswith ?n1 ''/'' then lstrip_char CHR ''/'' ?n1 else ?n1"
  from assms have in_split: "p \<in> set (split_char CHR ''/'' ?n2)" and ne: "p \<noteq> []" "p \<noteq> ''..''"
    by (auto simp: partes_seguras_def Let_def)
  show "p \<noteq> []" "p \<noteq> ''..''" by (rule ne)+
  show "CHR ''/'' \<notin> set p" using in_split by (rule split_char_no_sep)
  have "CHR 0x5C \<notin> set ?n1" by (auto simp: replace_char_def)
  then have "CHR 0x5C \<notin> set ?n2"
    by (auto simp: lstrip_char_def dest: set_dropWhileD)
  then show "CHR 0x5C \<notin> set p" using split_char_subset[OF in_split] by blast
qed

lemma join_char_hd:
  "ps \<noteq> [] \<Longrightarrow> hd ps \<noteq> [] \<Longrightarrow> join_char c ps \<noteq> [] \<and> hd (join_char c ps) = hd (hd ps)"
  by (induction c ps rule: join_char.induct) auto

lemma join_char_set:
  "x \<in> set (join_char c ps) \<Longrightarrow> x = c \<or> (\<exists>p \<in> set ps. x \<in> set p)"
  by (induction c ps rule: join_char.induct) auto

lemma sanitize_no_leading:
  "sanitize_zipinfo_name n = [] \<or> \<not> es_separador (hd (sanitize_zipinfo_name n))"
proof (cases "partes_seguras n")
  case Nil
  then show ?thesis by (simp add: sanitize_partes)
next
  case (Cons p ps)
  then have p: "p \<in> set (partes_seguras n)" by simp
  have "p \<noteq> []" "CHR ''/'' \<notin> set p" "CHR 0x5C \<notin> set p"
    using partes_seguras_prop[OF p] by auto
  moreover have "sanitize_zipinfo_name n \<noteq> [] \<and> hd (sanitize_zipinfo_name n) = hd p"
    using join_char_hd[of "partes_seguras n" "CHR ''/''"] Cons \<open>p \<noteq> []\<close>
    by (simp add: sanitize_partes)
  ultimately show ?thesis
    by (cases p) (auto simp: es_separador_def)
qed

lemma sanitize_no_backslash: "CHR 0x5C \<notin> set (sanitize_zipinfo_name n)"
  using join_char_set[of "CHR 0x5C" "CHR ''/''" "partes_seguras n"] partes_seguras_prop(4)[of _ n]
  by (auto simp: sanitize_partes)

lemma split_sanitize:
  "split_char CHR ''/'' (sanitize_zipinfo_name n) =
     (if partes_seguras n = [] then [[]] else partes_seguras n)"
  using split_join_char[of "partes_seguras n" "CHR ''/''"] partes_seguras_prop(3)[of _ n]
  by (auto simp: sanitize_partes)

lemma sanitize_no_dotdot: "''..'' \<notin> set (split_char CHR ''/'' (sanitize_zipinfo_name n))"
  using partes_seguras_prop(2)[of "''..''" n] by (auto simp: split_sanitize)

lemma foldl_paso_seguro:
  "(\<forall>p \<in> set ps. p \<noteq> [] \<and> p \<noteq> ''..'') \<Longrightarrow>
     foldl paso_segmento pila ps = pila @ filter (\<lambda>p. p \<noteq> ''.'') ps"
  by (induction ps arbitrary: pila) (auto simp: paso_segmento_def)

lemma resolver_sanitize_split:
  "foldl paso_segmento pila (split_char CHR ''/'' (sanitize_zipinfo_name n)) =
     pila @ filter (\<lambda>p. p \<noteq> ''.'') (partes_seguras n)"
proof (cases "partes_seguras n = []")
  case True
  then show ?thesis by (simp add: split_sanitize paso_segmento_def)
next
  case False
  then show ?thesis
    using foldl_paso_seguro[of "partes_seguras n" pila] partes_seguras_prop(1,2)[of _ n]
    by (auto simp: split_sanitize)
qed

lemma replace_char_id: "a \<notin> set s \<Longrightarrow> replace_char a b s = s"
  by (induction s) (auto simp: replace_char_def)

lemma replace_char_append: "replace_char a b (x @ y) = replace_char a b x @ replace_char a b y"
  by (simp add: replace_char_def)

lemma splitdrive_append: "fst (splitdrive p) @ snd (splitdrive p) = p"
  by (simp add: splitdrive_def)

text \<open>
  What holds of the join: for a destination with a directory part and an entry whose
  sanitized name has no drive prefix, the target resolves to a place below the
  destination.
\<close>

lemma resolver_join_sanitize:
  assumes d: "snd (splitdrive dest) \<noteq> []"
    and nd: "fst (splitdrive (sanitize_zipinfo_name n)) = []"
  shows "resolver (os_path_join dest (sanitize_zipinfo_name n)) =
           resolver dest @ filter (\<lambda>p. p \<noteq> ''.'') (partes_seguras n)"
proof -
  let ?s = "sanitize_zipinfo_name n"
  let ?R = "replace_char (CHR 0x5C) CHR ''/''"
  obtain rd rp where sd: "splitdrive dest = (rd, rp)" by (cases "splitdrive dest")
  have rp: "rp \<noteq> []" using d sd by simp
  have dest: "dest = rd @ rp" using splitdrive_append[of dest] sd by simp
  have ss: "splitdrive ?s = ([], ?s)"
    using nd splitdrive_append[of ?s] by (cases "splitdrive ?s") auto
  have ns: "?s = [] \<or> \<not> es_separador (hd ?s)" by (rule sanitize_no_leading)
  have Rs: "?R ?s = ?s" using sanitize_no_backslash by (rule replace_char_id)
  show ?thesis
  proof (cases "es_separador (last rp)")
    case False
    then have "os_path_join dest ?s = (rd @ rp) @ CHR 0x5C # ?s"
      using ns rp by (auto simp: os_path_join_def sd ss)
    then have j: "os_path_join dest ?s = dest @ CHR 0x5C # ?s"
      by (simp only: dest[symmetric])
    have "?R (dest @ CHR 0x5C # ?s) = ?R dest @ CHR ''/'' # ?s"
      using Rs by (simp add: replace_char_def)
    then show ?thesis
      by (simp add: j resolver_def split_char_append_sep resolver_sanitize_split)
  next
    case True
    then have "os_path_join dest ?s = (rd @ rp) @ ?s"
      using ns rp by (auto simp: os_path_join_def sd ss)
    then have j: "os_path_join dest ?s = dest @ ?s"
      by (simp only: dest[symmetric])
    obtain a c where ac: "dest = a @ [c]" "es_separador c"
      using True rp dest by (metis append_butlast_last_id append_assoc last_appendR snoc_eq_iff_butlast)
    have Rd: "?R dest = ?R a @ ''/''"
      using ac by (auto simp: replace_char_def es_separador_def)
    have "?R (dest @ ?s) = ?R a @ CHR ''/'' # ?s"
      using Rs Rd by (simp add: replace_char_append)
    moreover have "resolver dest = foldl paso_segmento [] (split_char CHR ''/'' (?R a))"
      by (simp add: resolver_def Rd split_char_append_sep paso_segmento_def)
    ultimately show ?thesis
      by (simp add: j resolver_def split_char_append_sep resolver_sanitize_split)
  qed
qed

lemma extraer_miembro_escritos:
  "set (escritos (fst (extraer_miembro dest st m))) \<subseteq>
     set (escritos st) \<union> {(os_path_join dest (sanitize_zipinfo_name (filename m)), datos m)}"
  by (auto simp: extraer_miembro_def safe_mkdir_def Let_def split: if_splits)

lemma extraer_miembros_escritos:
  "(p, d) \<in> set (escritos (fst (extraer_miembros dest st ms))) \<Longrightarrow>
     (p, d) \<in> set (escritos st) \<or>
     (\<exists>m \<in> set ms. p = os_path_join dest (sanitize_zipinfo_name (filename m)))"
proof (induction ms arbitrary: st)
  case Nil
  then show ?case by simp
next
  case (Cons m ms)
  obtain st1 r where e: "extraer_miembro dest st m = (st1, r)"
    by (cases "extraer_miembro dest st m")
  have sub: "set (escritos st1) \<subseteq>
     set (escritos st) \<union> {(os_path_join dest (sanitize_zipinfo_name (filename m)), datos m)}"
    using extraer_miembro_escritos[of dest st m] e by simp
  show ?case
  proof (cases r)
    case None
    then have "(p, d) \<in> set (escritos (fst (extraer_miembros dest st1 ms)))"
      using Cons.prems e by simp
    from Cons.IH[OF this] sub show ?thesis by auto
  next
    case (Some err)
    then have "(p, d) \<in> set (escritos st1)" using Cons.prems e by simp
    with sub show ?thesis by auto
  qed
qed

lemma extraer_zip_confinado_sin_unidad:
  assumes "snd (splitdrive dest) \<noteq> []"
    and "\<forall>m \<in> set ms. fst (splitdrive (sanitize_zipinfo_name (filename m))) = []"
    and "(p, d) \<in> set (escritos (fst (extraer_zip dest ms)))"
  shows "prefix (resolver dest) (resolver p)"
proof -
  have "fst (extraer_zip dest ms)
          = fst (extraer_miembros dest \<lparr>directorios = [dest], escritos = [], extraidos = []\<rparr> ms)"
    by (simp add: extraer_zip_def split: prod.splits option.splits)
  then have "\<exists>m \<in> set ms. p = os_path_join dest (sanitize_zipinfo_name (filename m))"
    using assms(3)
      extraer_miembros_escritos[of p d dest "\<lparr>directorios = [dest], escritos = [], extraidos = []\<rparr>" ms]
    by auto
  then show ?thesis
    using assms(1,2) by (auto simp: resolver_join_sanitize)
qed

lemma extraer_miembro_vacio:
  "sanitize_zipinfo_name (filename m) = [] \<Longrightarrow> extraer_miembro dest st m = (st, None)"
  by (simp add: extraer_miembro_def)

lemma destino_ejemplo_valor:
  "destino_ejemplo =
     ''C:'' @ CHR 0x5C # ''Users'' @ CHR 0x5C # ''u'' @ CHR 0x5C # ''Desktop'' @ CHR 0x5C # ''cmf_temp''
       @ CHR 0x5C # ''012024_20240131_120000'' @ CHR 0x5C # ''extract_20240131_120000_7''"
  by (simp add: destino_ejemplo_def os_path_join_def splitdrive_def es_separador_def)

lemma sanitize_unidad:
  "sanitize_zipinfo_name ''C:/Users/Public/evil.csv'' = ''C:/Users/Public/evil.csv''"
  "sanitize_zipinfo_name (''C:'' @ CHR 0x5C # ''Users'' @ CHR 0x5C # ''Public'' @ CHR 0x5C # ''evil.csv'')
     = ''C:/Users/Public/evil.csv''"
  by (simp_all add: sanitize_zipinfo_name_def replace_char_def startswith_def lstrip_char_def)

lemma join_unidad:
  "os_path_join destino_ejemplo ''C:/Users/Public/evil.csv'' = ''C:/Users/Public/evil.csv''"
  by (simp add: destino_ejemplo_valor os_path_join_def splitdrive_def es_separador_def)

lemma dirname_unidad: "os_path_dirname ''C:/Users/Public/evil.csv'' = ''C:/Users/Public''"
  by (simp add: os_path_dirname_def os_path_split_def splitdrive_def es_separador_def)

lemma resolver_unidad:
  "resolver ''C:/Users/Public/evil.csv'' = [''C:'', ''Users'', ''Public'', ''evil.csv'']"
  "resolver ''C:/Users/Public'' = [''C:'', ''Users'', ''Public'']"
  "resolver destino_ejemplo = [''C:'', ''Users'', ''u'', ''Desktop'', ''cmf_temp'',
      ''012024_20240131_120000'', ''extract_20240131_120000_7'']"
  by (simp_all add: resolver_def destino_ejemplo_valor replace_char_def paso_segmento_def)

text \<open>
  Claim C4. The sanitized name has no leading separator, no backslash and no \<open>..\<close>
  segment (the lemmas above), and an entry with an empty sanitized name changes nothing.
  But the sanitizer keeps a drive prefix: the entry name \<open>C:/Users/Public/evil.csv\<close>
  comes back as it is. \<open>os.path.join\<close> then drops the destination directory, the zip
  branch creates the directory \<open>C:/Users/Public\<close> and writes the file there, and the
  written path does not resolve to a place below the destination.
\<close>

theorem extraer_zip_fuera_del_destino:
  "sanitize_zipinfo_name ''C:/Users/Public/evil.csv'' = ''C:/Users/Public/evil.csv''
   \<and> os_path_join destino_ejemplo ''C:/Users/Public/evil.csv'' = ''C:/Users/Public/evil.csv''
   \<and> extraer_zip destino_ejemplo
         [\<lparr>filename = ''C:/Users/Public/evil.csv'', is_dir = False, datos = ''x''\<rparr>]
       = (\<lparr>directorios = [destino_ejemplo, ''C:/Users/Public''],
           escritos = [(''C:/Users/Public/evil.csv'', ''x'')],
           extraidos = [''C:/Users/Public/evil.csv'']\<rparr>,
          Inr [''C:/Users/Public/evil.csv''])
   \<and> \<not> prefix (resolver destino_ejemplo) (resolver ''C:/Users/Public/evil.csv'')"
  by (simp add: extraer_zip_def extraer_miembro_def safe_mkdir_def es_directorio_def
      sanitize_unidad join_unidad dirname_unidad resolver_unidad Let_def)

subsection \<open>Trend classifier\<close>

lemma porcentaje_9_6: "porcentaje_cambio 9 6 = 50"
  by code_simp

text \<open>
  The double arithmetic shows in the last digit: for the reference 160 and the current
  value 67 the exact percentage is \<open>-58.125\<close>, the computed product lies just below it
  and rounds to \<open>-58.13\<close>; for the current value 183 the product lies just below
  \<open>14.375\<close> and rounds to \<open>14.37\<close>.
\<close>

lemma porcentaje_67_160: "porcentaje_cambio 67 160 = fl (- 5813 / 100)"
  by code_simp

lemma porcentaje_183_160: "porcentaje_cambio 183 160 = fl (1437 / 100)"
  by code_simp

lemma tendencia_vs_anterior_umbral_10:
  assumes "ant \<noteq> 0" "umbral \<le> actual" "umbral \<le> ant" "10 \<le> umbral"
  shows "tendencia_vs_anterior (Some ant) actual umbral =
           (let pct = porcentaje_cambio actual ant
            in (Some pct,
                if \<bar>pct\<bar> \<le> 10 then Cambio_Leve
                else if \<bar>pct\<bar> \<le> 30 then Cambio_Moderado
                else if \<bar>pct\<bar> \<le> 50 then Cambio_Alto
                else Cambio_Critico))"
  using assms
  by (simp add: tendencia_vs_anterior_def clasificar_tendencia_def Let_def)

text \<open>
  Claim C7. With both values at least the floor and a nonzero reference the classifier is
  to return the rounded percentage and its bucket. For the floor 5, the current value 9
  and the reference 6 the percentage is 50 and its bucket is the high one, but the
  comparison returns no percentage and the slight bucket, because the small-sample test
  in \<open>worker_procesar\<close> compares against the constant 10 and not against the floor.
\<close>

theorem tendencia_vs_anterior_umbral_5:
  "tendencia_vs_anterior (Some 6) 9 5 = (None, Cambio_Leve)
   \<and> py_round2 (100 * (9 - 6) / 6) = 50
   \<and> clasificar_tendencia 50 (Some 9) (Some 6) 5 = Cambio_Alto"
proof -
  have "py_round2 (100 * (9 - 6) / 6) = 50" by code_simp
  then show ?thesis
    by (simp add: tendencia_vs_anterior_def clasificar_tendencia_def)
qed

text \<open>
  The comparison with the historical mean has no small-sample test: whenever the mean is
  not 0 it reports the computed percentage.
\<close>

lemma tendencia_historica_porcentaje:
  "valores \<noteq> [] \<Longrightarrow> promedio valores \<noteq> 0 \<Longrightarrow>
     fst (tendencia_historica valores actual umbral)
       = Some (porcentaje_cambio actual (promedio valores))"
  by (simp add: tendencia_historica_def Let_def)

text \<open>
  Claim C2, as the code has it. In the comparison with the previous period (row count
  and size): with a nonzero reference, and the current value or the reference below the
  floor, the classification is the slight bucket; the percentage is null when both values
  are below a floor of at most 10, and it is the computed percentage (the double
  arithmetic of the source, rounded to two decimals), not null, when one of the two
  values is at least 10 and at least the floor. Without a reference, or with the
  reference 0, the result is no percentage and ``no comparison'', whatever the current
  value and the floor. In the comparison with the historical mean, with a nonzero mean
  and the current value or the mean below the floor, the classification is the slight
  bucket.
\<close>

theorem tendencia_vs_anterior_bajo_umbral:
  "(ant \<noteq> 0 \<and> (actual < umbral \<or> ant < umbral) \<longrightarrow>
      snd (tendencia_vs_anterior (Some ant) actual umbral) = Cambio_Leve
      \<and> (actual < umbral \<and> ant < umbral \<and> umbral \<le> 10 \<longrightarrow>
           fst (tendencia_vs_anterior (Some ant) actual umbral) = None)
      \<and> ((10 \<le> actual \<and> umbral \<le> actual) \<or> (10 \<le> ant \<and> umbral \<le> ant) \<longrightarrow>
           fst (tendencia_vs_anterior (Some ant) actual umbral)
             = Some (porcentaje_cambio actual ant)))
   \<and> tendencia_vs_anterior (Some 0) actual umbral = (None, Sin_comparacion)
   \<and> tendencia_vs_anterior None actual umbral = (None, Sin_comparacion)
   \<and> (valores \<noteq> [] \<and> promedio valores \<noteq> 0
        \<and> (actual < umbral \<or> promedio valores < umbral) \<longrightarrow>
        snd (tendencia_historica valores actual umbral) = Cambio_Leve)"
  by (auto simp: tendencia_vs_anterior_def tendencia_historica_def clasificar_tendencia_def
      Let_def)

theorem tendencia_vs_anterior_bajo_umbral_witness:
  "tendencia_vs_anterior (Some 160) 67 100 = (Some (fl (- 5813 / 100)), Cambio_Leve)
   \<and> tendencia_vs_anterior (Some 3) 2 10 = (None, Cambio_Leve)
   \<and> tendencia_vs_anterior (Some 0) 2 10 = (None, Sin_comparacion)
   \<and> tendencia_vs_anterior None 2 10 = (None, Sin_comparacion)
   \<and> promedio [3] = 3
   \<and> snd (tendencia_historica [3] 2 10) = Cambio_Leve"
proof -
  have p: "promedio [3] = 3" by code_simp
  show ?thesis
    using tendencia_vs_anterior_bajo_umbral[of 160 67 100 "[3]"]
      tendencia_vs_anterior_bajo_umbral[of 3 2 10 "[3]"]
    by (simp add: prod_eq_iff porcentaje_67_160 p)
qed

text \<open>
  The claim as stated fails: with the current value 5, the reference 100 and the floor 10
  the percentage is \<open>-95\<close>, not null; with the reference 0 the classification is
  ``no comparison'', not the slight bucket.
\<close>

theorem tendencia_vs_anterior_bajo_umbral_counterexample:
  "tendencia_vs_anterior (Some 100) 5 10 = (Some (- 95), Cambio_Leve)
   \<and> tendencia_vs_anterior (Some 0) 5 10 = (None, Sin_comparacion)"
proof -
  have "porcentaje_cambio 5 100 = - 95" by code_simp
  then show ?thesis
    by (simp add: tendencia_vs_anterior_def clasificar_tendencia_def)
qed

subsection \<open>Identity matcher\<close>

lemma sort_values_desc_set [simp]: "set (sort_values_desc sim xs) = set xs"
  by (simp add: sort_values_desc_def)

lemma sort_values_desc_nil [simp]: "sort_values_desc sim xs = [] \<longleftrightarrow> xs = []"
  by (metis sort_values_desc_set set_empty)

lemma sort_values_desc_hd:
  assumes "x \<in> set xs"
  shows "sim x \<le> sim (hd (sort_values_desc sim xs))"
proof -
  let ?ys = "sort_values_desc sim xs"
  have srt: "sorted (map (\<lambda>x. - sim x) ?ys)"
    by (simp add: sort_values_desc_def)
  from assms have ne: "?ys \<noteq> []" by auto
  then obtain y ys where ys: "?ys = y # ys" by (cases ?ys) auto
  from assms have "x \<in> set ?ys" by simp
  then have "- sim y \<le> - sim x" using srt ys by auto
  then show ?thesis by (simp add: ys)
qed

text \<open>
  Claim C6. Within the rows of the previous period (the candidate pool: the ledger rows
  that carry the name of the previous period folder): when rows with exactly the current
  name exist, the last of them is returned, whatever the similarity scores are. Otherwise
  the score of a row is the ratio of its name and the current name, both in lower case;
  a row is returned only if it belongs to the pool, its score is at least 0.8 and no row
  of the pool scores higher; and no row is returned exactly when every row of the pool
  scores below 0.8.
\<close>

theorem buscar_fila_mes_ant_orden:
  "(let pool = filter (\<lambda>f. carpeta_mes f = Texto mes_anterior) df_historico;
        exact = filter (\<lambda>f. nombre_archivo f = nombre_actual) pool;
        sim = (\<lambda>f::fila_hist. ratio (lower (nombre_archivo f)) (lower nombre_actual));
        res = buscar_fila_mes_ant ratio df_historico mes_anterior nombre_actual
    in (exact \<noteq> [] \<longrightarrow> res = Some (last exact))
       \<and> (exact = [] \<longrightarrow>
            (\<forall>r. res = Some r \<longrightarrow>
                  r \<in> set pool \<and> 4 / 5 \<le> sim r \<and> (\<forall>f \<in> set pool. sim f \<le> sim r))
            \<and> (res = None \<longleftrightarrow> (\<forall>f \<in> set pool. sim f < 4 / 5))))"
proof -
  define pool where "pool = filter (\<lambda>f. carpeta_mes f = Texto mes_anterior) df_historico"
  define exact where "exact = filter (\<lambda>f. nombre_archivo f = nombre_actual) pool"
  define sim :: "fila_hist \<Rightarrow> rat"
    where "sim = (\<lambda>f. ratio (lower (nombre_archivo f)) (lower nombre_actual))"
  define res where "res = buscar_fila_mes_ant ratio df_historico mes_anterior nombre_actual"
  define top where "top = hd (sort_values_desc sim pool)"
  have pool_nil: "pool = []" if "df_historico = []" using that by (simp add: pool_def)
  have res_eq: "res = (if pool = [] then None
                       else if exact \<noteq> [] then Some (last exact)
                       else if 4 / 5 \<le> sim top then Some top else None)"
    using pool_nil
    by (auto simp: res_def buscar_fila_mes_ant_def Let_def pool_def exact_def sim_def top_def
        calcular_similitud_def)
  have exact_pool: "exact \<noteq> [] \<Longrightarrow> pool \<noteq> []" by (auto simp: exact_def)
  have top_in: "pool \<noteq> [] \<Longrightarrow> top \<in> set pool"
    unfolding top_def using hd_in_set[of "sort_values_desc sim pool"] by simp
  have top_max: "f \<in> set pool \<Longrightarrow> sim f \<le> sim top" for f
    unfolding top_def by (rule sort_values_desc_hd)
  have a: "exact \<noteq> [] \<longrightarrow> res = Some (last exact)"
    using exact_pool by (simp add: res_eq)
  have b: "res = Some r \<longrightarrow> r \<in> set pool \<and> 4 / 5 \<le> sim r \<and> (\<forall>f \<in> set pool. sim f \<le> sim r)"
    if "exact = []" for r
    using that top_in top_max by (auto simp: res_eq split: if_splits)
  have c: "res = None \<longleftrightarrow> (\<forall>f \<in> set pool. sim f < 4 / 5)" if "exact = []"
  proof (cases "pool = []")
    case True
    then show ?thesis by (simp add: res_eq)
  next
    case False
    have "(\<forall>f \<in> set pool. sim f < 4 / 5) \<longleftrightarrow> sim top < 4 / 5"
      using top_in[OF False] top_max by (meson le_less_trans)
    then show ?thesis using False that by (auto simp: res_eq)
  qed
  show ?thesis
    unfolding Let_def pool_def[symmetric] exact_def[symmetric] sim_def[symmetric] res_def[symmetric]
    using a b c by blast
qed

lemma lower_ej:
  "lower ''ventas.csv'' = ''ventas.csv''"
  "lower ''stock.csv'' = ''stock.csv''"
  "lower ''zzz.bin'' = ''zzz.bin''"
  "lower ''Reporte_Ventas_2024_a.csv'' = ''reporte_ventas_2024_a.csv''"
  "lower ''REPORTE_VENTAS_2024_B.CSV'' = ''reporte_ventas_2024_b.csv''"
  by code_simp+

lemma ratio_ej:
  "ratio_prefijo ''reporte_ventas_2024_a.csv'' ''reporte_ventas_2024_b.csv'' = 4 / 5"
  "ratio_prefijo ''ventas.csv'' ''reporte_ventas_2024_b.csv'' = 0"
  "ratio_prefijo ''stock.csv'' ''reporte_ventas_2024_b.csv'' = 0"
  "ratio_prefijo ''Reporte_Ventas_2024_a.csv'' ''reporte_ventas_2024_b.csv'' = 0"
  "ratio_prefijo ''reporte_ventas_2024_a.csv'' ''REPORTE_VENTAS_2024_B.CSV'' = 0"
  "ratio_prefijo ''ventas.csv'' ''zzz.bin'' = 0"
  "ratio_prefijo ''stock.csv'' ''zzz.bin'' = 0"
  "ratio_prefijo ''reporte_ventas_2024_a.csv'' ''zzz.bin'' = 0"
  by (simp_all add: ratio_prefijo_def)

theorem buscar_fila_mes_ant_orden_witness:
  "buscar_fila_mes_ant ratio_prefijo historico_ejemplo ''012024'' ''ventas.csv''
     = Some (fila_ejemplo 3 ''ventas.csv'' 15 120 ''012024'')
   \<and> lower ''Reporte_Ventas_2024_a.csv'' = ''reporte_ventas_2024_a.csv''
   \<and> lower ''REPORTE_VENTAS_2024_B.CSV'' = ''reporte_ventas_2024_b.csv''
   \<and> ratio_prefijo ''reporte_ventas_2024_a.csv'' ''reporte_ventas_2024_b.csv'' = 4 / 5
   \<and> ratio_prefijo ''Reporte_Ventas_2024_a.csv'' ''reporte_ventas_2024_b.csv'' = 0
   \<and> ratio_prefijo ''reporte_ventas_2024_a.csv'' ''REPORTE_VENTAS_2024_B.CSV'' = 0
   \<and> buscar_fila_mes_ant ratio_prefijo historico_ejemplo ''012024'' ''REPORTE_VENTAS_2024_B.CSV''
     = Some (fila_ejemplo 4 ''Reporte_Ventas_2024_a.csv'' 30 300 ''012024'')
   \<and> buscar_fila_mes_ant ratio_prefijo historico_ejemplo ''012024'' ''zzz.bin'' = None"
proof -
  have a: "buscar_fila_mes_ant ratio_prefijo historico_ejemplo ''012024'' ''ventas.csv''
     = Some (fila_ejemplo 3 ''ventas.csv'' 15 120 ''012024'')"
    using buscar_fila_mes_ant_orden[of "''012024''" historico_ejemplo "''ventas.csv''" ratio_prefijo]
    by (simp add: historico_ejemplo_def fila_ejemplo_def)
  have b: "buscar_fila_mes_ant ratio_prefijo historico_ejemplo ''012024'' ''REPORTE_VENTAS_2024_B.CSV''
     = Some (fila_ejemplo 4 ''Reporte_Ventas_2024_a.csv'' 30 300 ''012024'')"
    using buscar_fila_mes_ant_orden[of "''012024''" historico_ejemplo
        "''REPORTE_VENTAS_2024_B.CSV''" ratio_prefijo]
    by (auto simp: historico_ejemplo_def fila_ejemplo_def lower_ej ratio_ej Let_def)
  have c: "buscar_fila_mes_ant ratio_prefijo historico_ejemplo ''012024'' ''zzz.bin'' = None"
    by (simp add: buscar_fila_mes_ant_def historico_ejemplo_def fila_ejemplo_def Let_def
        calcular_similitud_def lower_ej ratio_ej sort_values_desc_def)
  from a b c show ?thesis
    by (simp add: lower_ej ratio_ej)
qed

subsection \<open>Row counts of the two reading modes\<close>

lemma contar_df_filas: "contar_filas_validas (df_filas n) = Inr n"
  by (simp add: contar_filas_validas_def df_filas_def py_int_def truncar_def)

lemma leer_csv_txt_grande:
  "umbral_streaming < grande \<Longrightarrow>
     filas_de_lectura (leer_csv_txt grande texto) = Inr (int (length (lineas texto)) - 1)"
  by (simp add: leer_csv_txt_def filas_de_lectura_def contar_df_filas)

lemma celda_de_campo_NaN: "celda_de_campo c = NaN \<longleftrightarrow> c \<in> set na_values"
  by (simp add: celda_de_campo_def)

lemma read_csv_coma:
  assumes "lineas texto = cabecera # filas"
    and "\<forall>l \<in> set (lineas texto). \<not> linea_en_blanco CHR '','' l"
    and "\<forall>l \<in> set filas. length (split_char CHR '','' l) \<le> length (split_char CHR '','' cabecera)"
  shows "read_csv enc CHR '','' texto =
           Inr \<lparr>columns = split_char CHR '','' cabecera,
                registros =
                  map (\<lambda>r. map celda_de_campo r
                             @ replicate (length (split_char CHR '','' cabecera) - length r) NaN)
                    (map (split_char CHR '','') filas)\<rparr>"
proof -
  have "filter (\<lambda>l. \<not> linea_en_blanco CHR '','' l) (lineas texto) = cabecera # filas"
    using assms(1,2) by (metis filter_True)
  moreover have "\<not> list_ex (\<lambda>r. length (split_char CHR '','' cabecera) < length r)
                    (map (split_char CHR '','') filas)"
    using assms(3) by (auto simp: list_ex_iff)
  ultimately show ?thesis by (simp add: read_csv_def Let_def)
qed

lemma probar_lecturas_coma:
  "read_csv Utf8_sig CHR '','' texto = Inr df \<Longrightarrow> probar_lecturas texto combinaciones = Inr df"
  by (simp add: combinaciones_def)

lemma contar_sin_vacias:
  assumes "cols \<noteq> [''__filas__'']"
    and "\<forall>r \<in> set regs. \<exists>c \<in> set r. c \<noteq> NaN"
  shows "contar_filas_validas \<lparr>columns = cols, registros = regs\<rparr> = Inr (int (length regs))"
proof -
  have "\<not> (''__filas__'' \<in> set cols \<and> length cols = 1)"
    using assms(1) by (cases cols) auto
  moreover have "filter (\<lambda>r. \<not> list_all (\<lambda>c. c = NaN) r) regs = regs"
    using assms(2) by (auto simp: list_all_iff intro!: filter_True)
  ultimately show ?thesis by (auto simp: contar_filas_validas_def)
qed

text \<open>
  Claim C5, as the code has it. For a text with a header line, without blank lines,
  without quoted fields, without a record longer than the header and without a record
  whose fields are all missing-value markers, and whose header is not the single column
  \<open>__filas__\<close>, the streaming mode (file above 10 MB) and the full parse (file of at most
  10 MB) give the same row count: the number of lines after the header.
\<close>

theorem leer_csv_txt_mismo_conteo:
  assumes "chico \<le> umbral_streaming" and "umbral_streaming < grande"
    and "lineas texto = cabecera # filas"
    and "\<forall>l \<in> set (lineas texto). \<not> linea_en_blanco CHR '','' l"
    and "\<forall>l \<in> set filas. length (split_char CHR '','' l) \<le> length (split_char CHR '','' cabecera)"
    and "\<forall>l \<in> set filas. \<exists>c \<in> set (split_char CHR '','' l). c \<notin> set na_values"
    and "split_char CHR '','' cabecera \<noteq> [''__filas__'']"
    and "CHR 0x22 \<notin> set texto"
  shows "filas_de_lectura (leer_csv_txt grande texto) = Inr (int (length filas))
         \<and> filas_de_lectura (leer_csv_txt chico texto) = Inr (int (length filas))"
proof -
  let ?cols = "split_char CHR '','' cabecera"
  let ?regs = "map (\<lambda>r. map celda_de_campo r @ replicate (length ?cols - length r) NaN)
                 (map (split_char CHR '','') filas)"
  have g: "filas_de_lectura (leer_csv_txt grande texto) = Inr (int (length filas))"
    using leer_csv_txt_grande[OF assms(2), of texto] assms(3) by simp
  have "read_csv Utf8_sig CHR '','' texto = Inr \<lparr>columns = ?cols, registros = ?regs\<rparr>"
    using read_csv_coma[OF assms(3,4,5)] .
  then have p: "leer_csv_txt chico texto = Inr \<lparr>columns = ?cols, registros = ?regs\<rparr>"
    using assms(1) by (simp add: leer_csv_txt_def probar_lecturas_coma)
  have "\<forall>r \<in> set ?regs. \<exists>c \<in> set r. c \<noteq> NaN"
  proof
    fix r assume "r \<in> set ?regs"
    then obtain l where l: "l \<in> set filas"
      and r: "r = map celda_de_campo (split_char CHR '','' l)
                    @ replicate (length ?cols - length (split_char CHR '','' l)) NaN"
      by auto
    from assms(6) l obtain c where "c \<in> set (split_char CHR '','' l)" "c \<notin> set na_values"
      by blast
    then have "celda_de_campo c \<in> set r" "celda_de_campo c \<noteq> NaN"
      by (auto simp: r celda_de_campo_NaN)
    then show "\<exists>c \<in> set r. c \<noteq> NaN" by blast
  qed
  then have "contar_filas_validas \<lparr>columns = ?cols, registros = ?regs\<rparr> = Inr (int (length ?regs))"
    using contar_sin_vacias[OF assms(7)] by blast
  then have "filas_de_lectura (leer_csv_txt chico texto) = Inr (int (length filas))"
    by (simp add: p filas_de_lectura_def)
  with g show ?thesis by simp
qed

lemma lineas_csv_ejemplo: "lineas csv_ejemplo = [''a,b'', ''1,2'', ''3,4'']"
  by (simp add: csv_ejemplo_def unir_lineas_def lineas_def)

lemma na_values_ej: "''1'' \<notin> set na_values" "''3'' \<notin> set na_values"
  by (simp_all add: na_values_def)

theorem leer_csv_txt_mismo_conteo_witness:
  "filas_de_lectura (leer_csv_txt (11 * 1024 * 1024) csv_ejemplo) = Inr 2
   \<and> filas_de_lectura (leer_csv_txt (9 * 1024 * 1024) csv_ejemplo) = Inr 2"
proof -
  have h1: "9 * 1024 * 1024 \<le> umbral_streaming" "umbral_streaming < 11 * 1024 * 1024"
    by (simp_all add: umbral_streaming_def)
  have h3: "lineas csv_ejemplo = ''a,b'' # [''1,2'', ''3,4'']"
    by (simp add: lineas_csv_ejemplo)
  have h4: "\<forall>l \<in> set (lineas csv_ejemplo). \<not> linea_en_blanco CHR '','' l"
    by (simp add: lineas_csv_ejemplo linea_en_blanco_def)
  have h5: "\<forall>l \<in> set [''1,2'', ''3,4'']. length (split_char CHR '','' l) \<le> length (split_char CHR '','' ''a,b'')"
    by simp
  have h6: "\<forall>l \<in> set [''1,2'', ''3,4'']. \<exists>c \<in> set (split_char CHR '','' l). c \<notin> set na_values"
    by (simp add: na_values_ej)
  have h7: "split_char CHR '','' ''a,b'' \<noteq> [''__filas__'']" by simp
  have h8: "CHR 0x22 \<notin> set csv_ejemplo"
    by (simp add: csv_ejemplo_def unir_lineas_def)
  show ?thesis
    using leer_csv_txt_mismo_conteo[OF h1 h3 h4 h5 h6 h7 h8] by simp
qed

text \<open>
  The claim as stated fails: a text with a blank line between two records has three
  lines after the header, which the streaming mode counts, and two records, which the
  full parse counts.
\<close>

theorem leer_csv_txt_mismo_conteo_counterexample:
  "filas_de_lectura (leer_csv_txt (11 * 1024 * 1024) csv_con_linea_en_blanco) = Inr 3
   \<and> filas_de_lectura (leer_csv_txt (9 * 1024 * 1024) csv_con_linea_en_blanco) = Inr 2"
proof -
  have l: "lineas csv_con_linea_en_blanco = [''a,b'', ''1,2'', [], ''3,4'']"
    by (simp add: csv_con_linea_en_blanco_def unir_lineas_def lineas_def)
  have g: "filas_de_lectura (leer_csv_txt (11 * 1024 * 1024) csv_con_linea_en_blanco) = Inr 3"
    by (simp add: leer_csv_txt_def umbral_streaming_def filas_de_lectura_def contar_df_filas l)
  have r: "read_csv Utf8_sig CHR '','' csv_con_linea_en_blanco =
             Inr \<lparr>columns = [''a'', ''b''],
                  registros = [[Texto ''1'', Texto ''2''], [Texto ''3'', Texto ''4'']]\<rparr>"
    by (simp add: read_csv_def l linea_en_blanco_def celda_de_campo_def na_values_def)
  have c: "filas_de_lectura (leer_csv_txt (9 * 1024 * 1024) csv_con_linea_en_blanco) = Inr 2"
    by (simp add: leer_csv_txt_def umbral_streaming_def probar_lecturas_coma[OF r]
        filas_de_lectura_def contar_filas_validas_def)
  from g c show ?thesis by simp
qed

subsection \<open>The ledger merge\<close>

lemma carpeta_mes_a_historico [simp]: "carpeta_mes (a_historico r) = carpeta_mes r"
  by (simp add: a_historico_def)

lemma carpeta_mes_enriquecer [simp]:
  "carpeta_mes (enriquecer env umbral hist mes_anterior mes row) = Texto mes"
  by (simp add: enriquecer_def Let_def split: option.splits)

lemma filter_todos_del_mes:
  "\<forall>r \<in> set df_mes. carpeta_mes r = Texto mes \<Longrightarrow>
     filter (\<lambda>f. carpeta_mes f = Texto mes) (map a_historico df_mes) = map a_historico df_mes
     \<and> filter (\<lambda>f. carpeta_mes f \<noteq> Texto mes) (map a_historico df_mes) = []"
  by (induction df_mes) auto

text \<open>
  The merge by itself: a non-empty set of rows of a period replaces the ledger rows that
  carry the folder name of the period as a text, and leaves every other row where it is.
  Rows that carry the period as a number are among the rows that stay.
\<close>

lemma fusionar_historico_reemplaza:
  assumes "df_mes \<noteq> []" and "\<forall>r \<in> set df_mes. carpeta_mes r = Texto mes"
  shows "fusionar_historico hist mes df_mes
           = filter (\<lambda>f. carpeta_mes f \<noteq> Texto mes) hist @ map a_historico df_mes
         \<and> filter (\<lambda>f. carpeta_mes f = Texto mes) (fusionar_historico hist mes df_mes)
             = map a_historico df_mes
         \<and> filter (\<lambda>f. carpeta_mes f \<noteq> Texto mes) (fusionar_historico hist mes df_mes)
             = filter (\<lambda>f. carpeta_mes f \<noteq> Texto mes) hist"
  using assms(1) filter_todos_del_mes[OF assms(2)]
  by (simp add: fusionar_historico_def)

lemma a_historico_ejemplo:
  "a_historico (fila_tendencia_ejemplo n nombre tam filas mes) = fila_ejemplo n nombre tam filas mes"
  by (simp add: a_historico_def fila_tendencia_ejemplo_def fila_ejemplo_def)

lemma carpeta_mes_ejemplo [simp]:
  "carpeta_mes (fila_ejemplo n nombre tam filas mes) = Texto mes"
  "carpeta_mes (fila_tendencia_ejemplo n nombre tam filas mes) = Texto mes"
  by (simp_all add: fila_ejemplo_def fila_tendencia_ejemplo_def)

subsection \<open>A period without rows\<close>

text \<open>
  Claim C10. When the processing of a period produces no row (the folder has no file, or
  the file loop is left before the first file), the period step leaves the ledger and
  the dictionary of results as they were: the rows that an earlier run recorded for the
  period are still in the ledger that the run writes.
\<close>

theorem procesar_mes_sin_filas:
  assumes "procesar_mes env umbral carpeta_base mes_anterior mes st = Inr st'"
    and "filas_mes env umbral carpeta_base mes_anterior mes st = Inr None
         \<or> (\<exists>nulos k. filas_mes env umbral carpeta_base mes_anterior mes st
                         = Inr (Some ([], nulos, k)))"
  shows "historico st' = historico st \<and> resultados_mensuales st' = resultados_mensuales st"
  using assms by (auto simp: procesar_mes_def fusionar_historico_def)

subsection \<open>Cancellation at a period boundary\<close>

lemma bucle_meses_cancelado:
  "cancelado env (sondeos_w st) \<Longrightarrow>
     bucle_meses env umbral carpeta_base mes_anterior st (mes # resto)
       = Inr (st\<lparr>sondeos_w := Suc (sondeos_w st)\<rparr>)"
  by simp

subsection \<open>The example run, step by step\<close>

lemma carpetas_valor:
  "os_path_join ''/base'' ''012024'' = ''/base'' @ CHR 0x5C # ''012024''"
  "os_path_join ''/base'' ''022024'' = ''/base'' @ CHR 0x5C # ''022024''"
  by (simp_all add: os_path_join_def splitdrive_def es_separador_def)

lemma rutas_valor:
  "ruta_ejemplo ''012024'' ''a.csv'' = ''/base'' @ CHR 0x5C # ''012024'' @ CHR 0x5C # ''a.csv''"
  "ruta_ejemplo ''012024'' ''b.csv'' = ''/base'' @ CHR 0x5C # ''012024'' @ CHR 0x5C # ''b.csv''"
  "ruta_ejemplo ''022024'' ''a.csv'' = ''/base'' @ CHR 0x5C # ''022024'' @ CHR 0x5C # ''a.csv''"
  "ruta_ejemplo ''012024'' ''x.bin'' = ''/base'' @ CHR 0x5C # ''012024'' @ CHR 0x5C # ''x.bin''"
  by (simp_all add: ruta_ejemplo_def os_path_join_def splitdrive_def es_separador_def)

lemma lower_rutas:
  "lower ''a.csv'' = ''a.csv''" "lower ''b.csv'' = ''b.csv''" "lower ''x.bin'' = ''x.bin''"
  "lower ''.csv'' = ''.csv''" "lower ''.bin'' = ''.bin''"
  by code_simp+

lemma basename_rutas:
  "os_path_basename (ruta_ejemplo ''012024'' ''a.csv'') = ''a.csv''"
  "os_path_basename (ruta_ejemplo ''012024'' ''b.csv'') = ''b.csv''"
  "os_path_basename (ruta_ejemplo ''022024'' ''a.csv'') = ''a.csv''"
  "os_path_basename (ruta_ejemplo ''012024'' ''x.bin'') = ''x.bin''"
  by (simp_all add: rutas_valor os_path_basename_def os_path_split_def splitdrive_def
      es_separador_def)

lemma splitext_rutas:
  "splitext_ext (ruta_ejemplo ''012024'' ''a.csv'') = ''.csv''"
  "splitext_ext (ruta_ejemplo ''012024'' ''b.csv'') = ''.csv''"
  "splitext_ext (ruta_ejemplo ''022024'' ''a.csv'') = ''.csv''"
  "splitext_ext (ruta_ejemplo ''012024'' ''x.bin'') = ''.bin''"
  by (simp_all add: rutas_valor splitext_ext_def replace_char_def)

lemma leer_csv_ejemplo: "leer_csv_txt 2048 csv_ejemplo = Inr df_ejemplo"
proof -
  have "read_csv Utf8_sig CHR '','' csv_ejemplo = Inr df_ejemplo"
    by (simp add: read_csv_def lineas_csv_ejemplo linea_en_blanco_def celda_de_campo_def
        na_values_def df_ejemplo_def)
  then show ?thesis
    by (simp add: leer_csv_txt_def umbral_streaming_def probar_lecturas_coma)
qed

lemma leer_ejemplo_csv:
  "p \<in> set [ruta_ejemplo ''012024'' ''a.csv'', ruta_ejemplo ''012024'' ''b.csv'',
             ruta_ejemplo ''022024'' ''a.csv''] \<Longrightarrow>
     leer_archivo_generico (entorno_ejemplo c) p = Inr df_ejemplo"
  by (auto simp: leer_archivo_generico_def entorno_ejemplo_def Let_def basename_rutas
      splitext_rutas lower_rutas endswith_def suffix_to_prefix leer_csv_ejemplo)

lemma leer_ejemplo_bin:
  "leer_archivo_generico (entorno_ejemplo c) (ruta_ejemplo ''012024'' ''x.bin'') = Inl RuntimeError"
  by (simp add: leer_archivo_generico_def entorno_ejemplo_def Let_def basename_rutas
      splitext_rutas lower_rutas endswith_def suffix_to_prefix)

lemma filas_df_ejemplo: "filas_de_lectura (Inr df_ejemplo) = Inr 2"
  by (simp add: filas_de_lectura_def contar_filas_validas_def df_ejemplo_def)

lemma detalle_df_ejemplo: "\<not> df_empty df_ejemplo" "detalle_nulos_de df_ejemplo n r = []"
  by (simp_all add: df_empty_def detalle_nulos_de_def df_ejemplo_def celda_nula_def py_strip_def)

lemma fl_ejemplo: "fl 2 = 2" "fl 2048 = 2048"
  by code_simp+

lemma nombre_tamano_ejemplo:
  "nombre_mostrado (entorno_ejemplo c) (os_path_join ''/base'' ''012024'')
      (item_simple (ruta_ejemplo ''012024'' ''a.csv'')) = ''a.csv''"
  "nombre_mostrado (entorno_ejemplo c) (os_path_join ''/base'' ''012024'')
      (item_simple (ruta_ejemplo ''012024'' ''b.csv'')) = ''b.csv''"
  "nombre_mostrado (entorno_ejemplo c) (os_path_join ''/base'' ''022024'')
      (item_simple (ruta_ejemplo ''022024'' ''a.csv'')) = ''a.csv''"
  "nombre_mostrado (entorno_ejemplo c) (os_path_join ''/base'' ''012024'')
      (item_simple (ruta_ejemplo ''012024'' ''x.bin'')) = ''x.bin''"
  "tamano_item (entorno_ejemplo c) (item_simple p) = 2"
  by (simp_all add: nombre_mostrado_def tamano_item_def obtener_tamano_kb_def entorno_ejemplo_def
      item_simple_def replace_char_def rutas_valor carpetas_valor fl_ejemplo)

lemma path_item_simple [simp]: "path (item_simple p) = p"
  by (simp add: item_simple_def)

lemma cancelado_ejemplo [simp]: "cancelado (entorno_ejemplo c) = c"
  by (simp add: entorno_ejemplo_def)

lemma procesar_a_csv:
  "procesar_archivo (entorno_ejemplo c) (os_path_join ''/base'' ''012024'') ''012024'' st
       (item_simple (ruta_ejemplo ''012024'' ''a.csv''))
     = Inr (st\<lparr>datos_mes := datos_mes st @
                   [\<lparr>correlativo = correlativo_act st, nombre_archivo = ''a.csv'',
                     tamano_kb = 2, cantidad_filas = 2, carpeta_mes = Texto ''012024''\<rparr>],
               correlativo_act := Suc (correlativo_act st)\<rparr>)"
  by (simp add: procesar_archivo_def Let_def leer_ejemplo_csv filas_df_ejemplo
      detalle_df_ejemplo nombre_tamano_ejemplo)

lemma procesar_a_csv_022024:
  "procesar_archivo (entorno_ejemplo c) (os_path_join ''/base'' ''022024'') ''022024'' st
       (item_simple (ruta_ejemplo ''022024'' ''a.csv''))
     = Inr (st\<lparr>datos_mes := datos_mes st @
                   [\<lparr>correlativo = correlativo_act st, nombre_archivo = ''a.csv'',
                     tamano_kb = 2, cantidad_filas = 2, carpeta_mes = Texto ''022024''\<rparr>],
               correlativo_act := Suc (correlativo_act st)\<rparr>)"
  by (simp add: procesar_archivo_def Let_def leer_ejemplo_csv filas_df_ejemplo
      detalle_df_ejemplo nombre_tamano_ejemplo)

lemma bucle_archivos_cancelado_en_2:
  "bucle_archivos (entorno_ejemplo (\<lambda>k. 2 \<le> k)) (os_path_join ''/base'' ''012024'') ''012024''
       \<lparr>datos_mes = [], detalle_nulos = [], correlativo_act = Suc 0, sondeos = Suc 0\<rparr>
       [item_simple (ruta_ejemplo ''012024'' ''a.csv''), item_simple (ruta_ejemplo ''012024'' ''b.csv'')]
     = Inr \<lparr>datos_mes = [\<lparr>correlativo = 1, nombre_archivo = ''a.csv'', tamano_kb = 2,
                           cantidad_filas = 2, carpeta_mes = Texto ''012024''\<rparr>],
            detalle_nulos = [], correlativo_act = 2, sondeos = 3\<rparr>"
  by (simp add: procesar_a_csv)

lemma listar_ejemplo:
  "listar (entorno_ejemplo c) (os_path_join ''/base'' ''012024'')
     = Inr [item_simple (ruta_ejemplo ''012024'' ''a.csv''), item_simple (ruta_ejemplo ''012024'' ''b.csv'')]"
  "listar (entorno_ejemplo c) (os_path_join ''/base'' ''022024'')
     = Inr [item_simple (ruta_ejemplo ''022024'' ''a.csv'')]"
  by (simp_all add: entorno_ejemplo_def carpetas_valor)

lemma quitar_duplicados_ejemplo:
  "quitar_duplicados [] [item_simple (ruta_ejemplo ''012024'' ''a.csv''),
                         item_simple (ruta_ejemplo ''012024'' ''b.csv'')]
     = [item_simple (ruta_ejemplo ''012024'' ''a.csv''), item_simple (ruta_ejemplo ''012024'' ''b.csv'')]"
  "quitar_duplicados [] [item_simple (ruta_ejemplo ''022024'' ''a.csv'')]
     = [item_simple (ruta_ejemplo ''022024'' ''a.csv'')]"
  by (simp_all add: basename_rutas Let_def)

lemma enriquecer_primer_mes:
  "enriquecer env u hist None mes
       \<lparr>correlativo = Suc 0, nombre_archivo = ''a.csv'', tamano_kb = 2, cantidad_filas = 2,
        carpeta_mes = Texto mes\<rparr>
     = fila_tendencia_ejemplo 1 ''a.csv'' 2 2 mes"
  by (simp add: enriquecer_def fila_tendencia_ejemplo_def)

lemma filas_mes_cancelado_en_2:
  "filas_mes (entorno_ejemplo (\<lambda>k. 2 \<le> k)) 10 ''/base'' None ''012024''
       \<lparr>historico = [], resultados_mensuales = [], resumenes = [], detalles = [],
        sondeos_w = Suc 0\<rparr>
     = Inr (Some ([fila_tendencia_ejemplo 1 ''a.csv'' 2 2 ''012024''], [], 3))"
  by (simp add: filas_mes_def listar_ejemplo quitar_duplicados_ejemplo Let_def
      bucle_archivos_cancelado_en_2 enriquecer_primer_mes
      del: bucle_archivos.simps quitar_duplicados.simps)

lemma procesar_mes_cancelado_en_2:
  "procesar_mes (entorno_ejemplo (\<lambda>k. 2 \<le> k)) 10 ''/base'' None ''012024''
       \<lparr>historico = [], resultados_mensuales = [], resumenes = [], detalles = [],
        sondeos_w = Suc 0\<rparr>
     = Inr \<lparr>historico = [fila_ejemplo 1 ''a.csv'' 2 2 ''012024''],
            resultados_mensuales = [(''012024'', [fila_tendencia_ejemplo 1 ''a.csv'' 2 2 ''012024''])],
            resumenes = [(''012024'', [fila_tendencia_ejemplo 1 ''a.csv'' 2 2 ''012024''])],
            detalles = [], sondeos_w = 3\<rparr>"
  by (simp add: procesar_mes_def filas_mes_cancelado_en_2 fusionar_historico_def
      a_historico_ejemplo)

text \<open>
  Claim C1. In the example run the cancellation event is not set when the worker asks at
  the start of period \<open>012024\<close> and before its first file, and is set when it asks before
  the second file. The run reaches its end, and the ledger it writes holds the row of
  the first file, tagged with the cancelled period.
\<close>

theorem worker_procesar_cancelado_durante_mes:
  "historico_guardado
     (worker_procesar (entorno_ejemplo (\<lambda>k. 2 \<le> k)) True
        [(''012024'', True), (''022024'', True)] [] ''/base'' 10)
     = Some [fila_ejemplo 1 ''a.csv'' 2 2 ''012024'']"
proof -
  have c: "buscar_carpetas_mes [(''012024'', True), (''022024'', True)] = [''012024'', ''022024'']"
    by (simp add: buscar_carpetas_mes_def isdigit_def char_isdigit_def)
  show ?thesis
    by (simp add: worker_procesar_def c historico_guardado_def procesar_mes_cancelado_en_2)
qed

subsection \<open>A period without rows: the example\<close>

lemma filas_mes_cancelado_en_1:
  "filas_mes (entorno_ejemplo (\<lambda>k. 0 < k)) 10 ''/base'' None ''012024''
       \<lparr>historico = [fila_ejemplo 7 ''viejo.csv'' 3 7 ''012024''], resultados_mensuales = [],
        resumenes = [], detalles = [], sondeos_w = Suc 0\<rparr>
     = Inr (Some ([], [], 2))"
  by (simp add: filas_mes_def listar_ejemplo quitar_duplicados_ejemplo Let_def
      del: quitar_duplicados.simps)

lemma procesar_mes_cancelado_en_1:
  "procesar_mes (entorno_ejemplo (\<lambda>k. 0 < k)) 10 ''/base'' None ''012024''
       \<lparr>historico = [fila_ejemplo 7 ''viejo.csv'' 3 7 ''012024''], resultados_mensuales = [],
        resumenes = [], detalles = [], sondeos_w = Suc 0\<rparr>
     = Inr \<lparr>historico = [fila_ejemplo 7 ''viejo.csv'' 3 7 ''012024''], resultados_mensuales = [],
            resumenes = [(''012024'', [])], detalles = [], sondeos_w = 2\<rparr>"
  by (simp add: procesar_mes_def filas_mes_cancelado_en_1 fusionar_historico_def)

theorem procesar_mes_sin_filas_witness:
  "filas_mes (entorno_ejemplo (\<lambda>k. 0 < k)) 10 ''/base'' None ''012024''
       \<lparr>historico = [fila_ejemplo 7 ''viejo.csv'' 3 7 ''012024''], resultados_mensuales = [],
        resumenes = [], detalles = [], sondeos_w = Suc 0\<rparr>
     = Inr (Some ([], [], 2))
   \<and> procesar_mes (entorno_ejemplo (\<lambda>k. 0 < k)) 10 ''/base'' None ''012024''
       \<lparr>historico = [fila_ejemplo 7 ''viejo.csv'' 3 7 ''012024''], resultados_mensuales = [],
        resumenes = [], detalles = [], sondeos_w = Suc 0\<rparr>
     = Inr \<lparr>historico = [fila_ejemplo 7 ''viejo.csv'' 3 7 ''012024''], resultados_mensuales = [],
            resumenes = [(''012024'', [])], detalles = [], sondeos_w = 2\<rparr>
   \<and> historico \<lparr>historico = [fila_ejemplo 7 ''viejo.csv'' 3 7 ''012024''],
                 resultados_mensuales = [], resumenes = [(''012024'', [])], detalles = [],
                 sondeos_w = 2\<rparr>
     = [fila_ejemplo 7 ''viejo.csv'' 3 7 ''012024'']"
proof -
  have h2: "filas_mes (entorno_ejemplo (\<lambda>k. 0 < k)) 10 ''/base'' None ''012024''
       \<lparr>historico = [fila_ejemplo 7 ''viejo.csv'' 3 7 ''012024''], resultados_mensuales = [],
        resumenes = [], detalles = [], sondeos_w = Suc 0\<rparr> = Inr None
     \<or> (\<exists>nulos k. filas_mes (entorno_ejemplo (\<lambda>k. 0 < k)) 10 ''/base'' None ''012024''
       \<lparr>historico = [fila_ejemplo 7 ''viejo.csv'' 3 7 ''012024''], resultados_mensuales = [],
        resumenes = [], detalles = [], sondeos_w = Suc 0\<rparr> = Inr (Some ([], nulos, k)))"
    using filas_mes_cancelado_en_1 by blast
  show ?thesis
    using procesar_mes_sin_filas[OF procesar_mes_cancelado_en_1 h2]
      filas_mes_cancelado_en_1 procesar_mes_cancelado_en_1
    by simp
qed

subsection \<open>Processing a period again\<close>

lemma bucle_archivos_022024:
  "bucle_archivos (entorno_ejemplo (\<lambda>k. False)) (os_path_join ''/base'' ''022024'') ''022024''
       \<lparr>datos_mes = [], detalle_nulos = [], correlativo_act = Suc 0, sondeos = Suc 0\<rparr>
       [item_simple (ruta_ejemplo ''022024'' ''a.csv'')]
     = Inr \<lparr>datos_mes = [\<lparr>correlativo = 1, nombre_archivo = ''a.csv'', tamano_kb = 2,
                           cantidad_filas = 2, carpeta_mes = Texto ''022024''\<rparr>],
            detalle_nulos = [], correlativo_act = 2, sondeos = 2\<rparr>"
  by (simp add: procesar_a_csv_022024)

lemma filas_mes_022024:
  "filas_mes (entorno_ejemplo (\<lambda>k. False)) 10 ''/base'' None ''022024''
       \<lparr>historico = h, resultados_mensuales = [], resumenes = [], detalles = [],
        sondeos_w = Suc 0\<rparr>
     = Inr (Some ([fila_tendencia_ejemplo 1 ''a.csv'' 2 2 ''022024''], [], 2))"
  by (simp add: filas_mes_def listar_ejemplo quitar_duplicados_ejemplo Let_def
      bucle_archivos_022024 enriquecer_primer_mes
      del: bucle_archivos.simps quitar_duplicados.simps)

lemma procesar_mes_022024:
  "procesar_mes (entorno_ejemplo (\<lambda>k. False)) 10 ''/base'' None ''022024''
       \<lparr>historico = h, resultados_mensuales = [], resumenes = [], detalles = [],
        sondeos_w = Suc 0\<rparr>
     = Inr \<lparr>historico = filter (\<lambda>f. carpeta_mes f \<noteq> Texto ''022024'') h
                          @ [fila_ejemplo 1 ''a.csv'' 2 2 ''022024''],
            resultados_mensuales = [(''022024'', [fila_tendencia_ejemplo 1 ''a.csv'' 2 2 ''022024''])],
            resumenes = [(''022024'', [fila_tendencia_ejemplo 1 ''a.csv'' 2 2 ''022024''])],
            detalles = [], sondeos_w = 2\<rparr>"
  by (simp add: procesar_mes_def filas_mes_022024 fusionar_historico_def
      a_historico_ejemplo)

lemma worker_022024:
  "historico_guardado
     (worker_procesar (entorno_ejemplo (\<lambda>k. False)) True [(''022024'', True)] h ''/base'' 10)
     = Some (filter (\<lambda>f. carpeta_mes f \<noteq> Texto ''022024'') h
             @ [fila_ejemplo 1 ''a.csv'' 2 2 ''022024''])"
proof -
  have c: "buscar_carpetas_mes [(''022024'', True)] = [''022024'']"
    by (simp add: buscar_carpetas_mes_def isdigit_def char_isdigit_def)
  show ?thesis
    by (simp add: worker_procesar_def c historico_guardado_def procesar_mes_022024)
qed

lemma fl_formato: "fl (2 * 1024) = 2048" "fl (2048 / 1024) = 2"
  by code_simp+

lemma recargado_ejemplo:
  "read_excel_historico (formatear_excel [fila_ejemplo 1 ''a.csv'' 2 2 ''022024''])
     = [(fila_ejemplo 1 ''a.csv'' 2 2 ''022024'')\<lparr>carpeta_mes := Numero 22024\<rparr>]"
  by (simp add: read_excel_historico_def formatear_excel_def fila_ejemplo_def solo_digitos_def
      valor_decimal_def fl_formato fl_ejemplo Let_def)

text \<open>
  Claim C3. The period \<open>022024\<close> of the example folder is processed by two runs. The
  first run starts without a ledger and writes a ledger with the one row of \<open>a.csv\<close>.
  The second run finds the ledger file still in the base folder (the move to the backup
  folder has failed) and loads it; the file comes back with the period of the row as the
  number 22024. The run does not remove that row: the purge compares the period of each
  ledger row with the folder name, a text. The ledger that the second run writes holds
  the file of the period twice.
\<close>

theorem worker_procesar_reproceso_duplica:
  "historico_guardado
     (worker_procesar (entorno_ejemplo (\<lambda>k. False)) True [(''022024'', True)] [] ''/base'' 10)
     = Some [fila_ejemplo 1 ''a.csv'' 2 2 ''022024'']
   \<and> read_excel_historico (formatear_excel [fila_ejemplo 1 ''a.csv'' 2 2 ''022024''])
     = [(fila_ejemplo 1 ''a.csv'' 2 2 ''022024'')\<lparr>carpeta_mes := Numero 22024\<rparr>]
   \<and> historico_guardado
       (worker_procesar (entorno_ejemplo (\<lambda>k. False)) True [(''022024'', True)]
          (read_excel_historico (formatear_excel [fila_ejemplo 1 ''a.csv'' 2 2 ''022024'']))
          ''/base'' 10)
     = Some [(fila_ejemplo 1 ''a.csv'' 2 2 ''022024'')\<lparr>carpeta_mes := Numero 22024\<rparr>,
             fila_ejemplo 1 ''a.csv'' 2 2 ''022024'']"
proof -
  have a: "historico_guardado
     (worker_procesar (entorno_ejemplo (\<lambda>k. False)) True [(''022024'', True)] [] ''/base'' 10)
     = Some [fila_ejemplo 1 ''a.csv'' 2 2 ''022024'']"
    using worker_022024[of "[]"] by simp
  have c: "historico_guardado
       (worker_procesar (entorno_ejemplo (\<lambda>k. False)) True [(''022024'', True)]
          [(fila_ejemplo 1 ''a.csv'' 2 2 ''022024'')\<lparr>carpeta_mes := Numero 22024\<rparr>]
          ''/base'' 10)
     = Some [(fila_ejemplo 1 ''a.csv'' 2 2 ''022024'')\<lparr>carpeta_mes := Numero 22024\<rparr>,
             fila_ejemplo 1 ''a.csv'' 2 2 ''022024'']"
    using worker_022024[of "[(fila_ejemplo 1 ''a.csv'' 2 2 ''022024'')\<lparr>carpeta_mes := Numero 22024\<rparr>]"]
    by (simp add: fila_ejemplo_def)
  show ?thesis
    unfolding recargado_ejemplo using a c by simp
qed

subsection \<open>Read failures\<close>

lemma lectura_fallida_continua:
  assumes "leer_archivo_generico env (path it) = Inl e"
  shows "procesar_archivo env ruta_mes mes st it
           = Inr (st\<lparr>datos_mes := datos_mes st @
                         [\<lparr>correlativo = correlativo_act st,
                           nombre_archivo = nombre_mostrado env ruta_mes it,
                           tamano_kb = tamano_item env it, cantidad_filas = 0,
                           carpeta_mes = Texto mes\<rparr>],
                     correlativo_act := Suc (correlativo_act st)\<rparr>)
         \<and> (\<not> cancelado env (sondeos st) \<longrightarrow>
              bucle_archivos env ruta_mes mes st (it # resto)
                = bucle_archivos env ruta_mes mes
                    (st\<lparr>sondeos := Suc (sondeos st),
                        datos_mes := datos_mes st @
                          [\<lparr>correlativo = correlativo_act st,
                            nombre_archivo = nombre_mostrado env ruta_mes it,
                            tamano_kb = tamano_item env it, cantidad_filas = 0,
                            carpeta_mes = Texto mes\<rparr>],
                        correlativo_act := Suc (correlativo_act st)\<rparr>) resto)
         \<and> procesar_archivo_lista env mes sl it
             = sl\<lparr>nulos_detalle := nulos_detalle sl @
                     [\<lparr>e_mes = extraer_mes_anio mes, e_archivo = os_path_basename (path it),
                       e_ruta = path it, e_error = e\<rparr>]\<rparr>"
  using assms
  by (simp add: procesar_archivo_def procesar_archivo_lista_def filas_de_lectura_def Let_def)

text \<open>
  Claim C9. The file \<open>x.bin\<close> has a format that \<open>leer_archivo_generico\<close> does not
  support, so its read raises. In cm.py the failure is caught and the loop goes on with
  the next file, but the only trace of the file in the output is a row of the period with
  the row count 0: the detail output of the period gets no entry (the exception is kept
  in \<open>read_error\<close>, which is never read, and its message goes to the log). In
  lista.py the same file gets an entry of the error detail that carries the error.
\<close>

theorem procesar_archivo_lectura_fallida_sin_registro:
  "leer_archivo_generico (entorno_ejemplo (\<lambda>k. False)) (ruta_ejemplo ''012024'' ''x.bin'')
     = Inl RuntimeError
   \<and> bucle_archivos (entorno_ejemplo (\<lambda>k. False)) (os_path_join ''/base'' ''012024'') ''012024''
       \<lparr>datos_mes = [], detalle_nulos = [], correlativo_act = 1, sondeos = 0\<rparr>
       [item_simple (ruta_ejemplo ''012024'' ''x.bin''), item_simple (ruta_ejemplo ''012024'' ''a.csv'')]
     = Inr \<lparr>datos_mes =
              [\<lparr>correlativo = 1, nombre_archivo = ''x.bin'', tamano_kb = 2,
                cantidad_filas = 0, carpeta_mes = Texto ''012024''\<rparr>,
               \<lparr>correlativo = 2, nombre_archivo = ''a.csv'', tamano_kb = 2,
                cantidad_filas = 2, carpeta_mes = Texto ''012024''\<rparr>],
            detalle_nulos = [], correlativo_act = 3, sondeos = 2\<rparr>
   \<and> procesar_archivo_lista (entorno_ejemplo (\<lambda>k. False)) ''012024''
       \<lparr>historico_data = [], nulos_detalle = []\<rparr> (item_simple (ruta_ejemplo ''012024'' ''x.bin''))
     = \<lparr>historico_data = [],
        nulos_detalle = [\<lparr>e_mes = ''01/2024'', e_archivo = ''x.bin'',
                          e_ruta = ruta_ejemplo ''012024'' ''x.bin'', e_error = RuntimeError\<rparr>]\<rparr>"
proof -
  have m: "extraer_mes_anio ''012024'' = ''01/2024''"
    by (simp add: extraer_mes_anio_def isdigit_def char_isdigit_def)
  have x: "procesar_archivo (entorno_ejemplo (\<lambda>k. False)) (os_path_join ''/base'' ''012024'')
             ''012024'' st (item_simple (ruta_ejemplo ''012024'' ''x.bin''))
           = Inr (st\<lparr>datos_mes := datos_mes st @
                   [\<lparr>correlativo = correlativo_act st, nombre_archivo = ''x.bin'',
                     tamano_kb = 2, cantidad_filas = 0, carpeta_mes = Texto ''012024''\<rparr>],
               correlativo_act := Suc (correlativo_act st)\<rparr>)" for st
    by (simp add: procesar_archivo_def Let_def leer_ejemplo_bin filas_de_lectura_def
        nombre_tamano_ejemplo)
  show ?thesis
    by (simp add: leer_ejemplo_bin x procesar_a_csv procesar_archivo_lista_def basename_rutas m)
qed

end
